theory Spec2Isabelle
  imports Main
begin

section \<open>Values exchanged with the model and the tools\<close>

text \<open>
  Tool arguments and tool results are untyped JSON-like values (\<^verbatim>\<open>any\<close>,
  \<^verbatim>\<open>unknown\<close>, \<^verbatim>\<open>Record<string, unknown>\<close> in the source).
  An argument object is an association list of field names and values.
\<close>

datatype jvalue =
    JUndefined
  | JNull
  | JBool bool
  | JNum int
  | JStr string
  | JArr "jvalue list"
  | JObj "(string \<times> jvalue) list"

type_synonym jobject = "(string \<times> jvalue) list"

text \<open>
  A thrown JavaScript error: the message every \<^verbatim>\<open>catch\<close> block of the
  repository reads, and the HTTP status that the code-hosting client attaches to a failed
  request (absent on errors made with \<^verbatim>\<open>new Error\<close> or
  \<^verbatim>\<open>new TypeError\<close>, and on the errors of the runtime).
\<close>

record js_error =
  status :: "int option"
  message :: string

definition new_Error :: "string \<Rightarrow> js_error" where
  "new_Error msg = \<lparr>status = None, message = msg\<rparr>"

definition quote :: string where
  "quote = [CHR 0x27]"

text \<open>
  The error of the runtime for reading a property of \<^verbatim>\<open>undefined\<close>, as in
  \<^verbatim>\<open>args.status\<close> when a call carries no arguments.
\<close>

definition property_of_undefined :: "string \<Rightarrow> js_error" where
  "property_of_undefined p =
     new_Error (''Cannot read properties of undefined (reading '' @ quote @ p @ quote @ '')'')"

section \<open>Tool registry (utils/defineAiFunction)\<close>

text \<open>
  An \<^verbatim>\<open>AiFunction\<close> is a declaration and an implementation. Of the
  declaration only the name matters to dispatch. An implementation may throw and may change
  the world outside the loop (caches, containers, files), so it maps the arguments and the
  world to a result or an error, and the new world. The arguments are those of the model's
  call, which may carry none (\<^verbatim>\<open>undefined\<close>).
\<close>

type_synonym 'w implementation = "jobject option \<Rightarrow> 'w \<Rightarrow> (js_error + jvalue) \<times> 'w"

record 'w AiFunction =
  decl_name :: string
  implementation :: "'w implementation"

type_synonym 'w ai_functions = "string \<rightharpoonup> 'w AiFunction"

text \<open>
  The tool map is a plain object made by \<^verbatim>\<open>Object.fromEntries\<close>; the map
  \<open>func\<close> holds its own properties. Reading \<^verbatim>\<open>func[name]\<close> for a name it
  does not own finds the properties every object inherits from
  \<^verbatim>\<open>Object.prototype\<close>, which are functions or objects, hence not falsy.
\<close>

definition object_prototype_names :: "string list" where
  "object_prototype_names =
     [''constructor'', ''__defineGetter__'', ''__defineSetter__'', ''hasOwnProperty'',
      ''__lookupGetter__'', ''__lookupSetter__'', ''isPrototypeOf'', ''propertyIsEnumerable'',
      ''toString'', ''valueOf'', ''__proto__'', ''toLocaleString'']"

text \<open>
  \<^verbatim>\<open>runAiFunction(func, name, args)\<close>: \<^verbatim>\<open>const f = func[name]\<close>;
  when \<^verbatim>\<open>f\<close> is falsy, throw \<^verbatim>\<open>Function '<name>' not found\<close>;
  otherwise \<^verbatim>\<open>return f.implementation(args)\<close>, which runs the tool, and for an
  inherited property, which has no \<^verbatim>\<open>implementation\<close>, throws the runtime's
  \<^verbatim>\<open>TypeError: f.implementation is not a function\<close>.
\<close>

definition runAiFunction ::
  "'w ai_functions \<Rightarrow> string \<Rightarrow> jobject option \<Rightarrow> 'w \<Rightarrow> (js_error + jvalue) \<times> 'w" where
  "runAiFunction func name args w =
     (case func name of
        Some f \<Rightarrow> implementation f args w
      | None \<Rightarrow>
          if name \<in> set object_prototype_names
          then (Inl (new_Error ''f.implementation is not a function''), w)
          else (Inl (new_Error (''Function '' @ quote @ name @ quote @ '' not found'')), w))"

text \<open>
  \<^verbatim>\<open>Object.fromEntries(aiFunctions.map(f => [f.declaration.name, f]))\<close>:
  a later entry with the same name replaces an earlier one.
\<close>

definition fromEntries :: "'w AiFunction list \<Rightarrow> 'w ai_functions" where
  "fromEntries fs = map_of (rev (map (\<lambda>f. (decl_name f, f)) fs))"

text \<open>
  The finalize tools \<^verbatim>\<open>report\<close> (reproducer) and
  \<^verbatim>\<open>analyzeIssue\<close> (filterer): the implementation is an empty function,
  which returns \<^verbatim>\<open>undefined\<close> and touches nothing.
\<close>

definition dummy_implementation :: "'w implementation" where
  "dummy_implementation args w = (Inr JUndefined, w)"

definition report :: "'w AiFunction" where
  "report = \<lparr>decl_name = ''report'', implementation = dummy_implementation\<rparr>"

definition analyzeIssue :: "'w AiFunction" where
  "analyzeIssue = \<lparr>decl_name = ''analyzeIssue'', implementation = dummy_implementation\<rparr>"

section \<open>The model backend and the conversation\<close>

text \<open>
  A function call returned by the model. Both fields are optional in the client library's
  type: the loops test the name, and they use the arguments without a test.
\<close>

record function_call =
  fc_name :: "string option"
  fc_args :: "jobject option"

datatype result_key = Key_error | Key_output

datatype part =
    Text_part string
  | FunctionCall_part "string option" "jobject option"
  | FunctionResponse_part "string option" result_key jvalue

record content =
  role :: string
  parts :: "part list"

text \<open>
  The system instruction of a request. The reproducer replaces the two placeholders of a
  fixed template by the remaining and the maximal iteration counts, so its instruction is
  determined by these two numbers; the filterer's instruction is a constant.
\<close>

datatype system_instruction =
    Reproducer_instruction int int
  | Filterer_instruction

record gen_request =
  rq_contents :: "content list"
  rq_systemInstruction :: system_instruction

record gen_response =
  resp_text :: "string option"
  resp_functionCalls :: "function_call list option"

text \<open>
  The backend is outside the program: its answer may depend on the request and on
  everything it was asked and has answered before.
\<close>

type_synonym model_backend =
  "(gen_request \<times> gen_response) list \<Rightarrow> gen_request \<Rightarrow> gen_response"

record call_record =
  h_name :: string
  h_args :: "jobject option"
  h_result :: jvalue
  h_key :: result_key

datatype log_level = Warn | Error_level

text \<open>
  The variables of one agent run: the conversation, the two histories the reproducer
  returns, the exchanges with the model so far (one entry per call of
  \<^verbatim>\<open>generateContent\<close>: the request and its answer), the logger's output at level warn and above (the
  \<^verbatim>\<open>debug\<close> lines change no variable and are not kept), and the world the
  tools act on.
\<close>

record 'w agent_state =
  contents :: "content list"
  functionCallHistory :: "call_record list"
  agentResponses :: "(nat \<times> string) list"
  exchanges :: "(gen_request \<times> gen_response) list"
  logger :: "(log_level \<times> string) list"
  world :: 'w

definition falsy :: "string option \<Rightarrow> bool" where
  "falsy name = (name = None \<or> name = Some [])"

definition request_of :: "system_instruction \<Rightarrow> 'w agent_state \<Rightarrow> gen_request" where
  "request_of sys st = \<lparr>rq_contents = contents st, rq_systemInstruction = sys\<rparr>"

definition generateContent ::
  "model_backend \<Rightarrow> system_instruction \<Rightarrow> 'w agent_state \<Rightarrow> gen_response \<times> 'w agent_state" where
  "generateContent genAI sys st =
     (let rq = request_of sys st;
          response = genAI (exchanges st) rq
      in (response, st\<lparr>exchanges := exchanges st @ [(rq, response)]\<rparr>))"

section \<open>The reproduction agent (agents/reproducer, reproduceWithGemini)\<close>

text \<open>
  The body of \<^verbatim>\<open>try / catch / finally\<close> for one call: a missing name
  throws, otherwise the call goes through \<^verbatim>\<open>runAiFunction\<close>; a throw
  becomes the result \<^verbatim>\<open>Error: <message>\<close> under the key
  \<^verbatim>\<open>error\<close>; in both cases a record is pushed on the call history.
\<close>

definition try_call ::
  "'w ai_functions \<Rightarrow> function_call \<Rightarrow> 'w \<Rightarrow> (js_error + jvalue) \<times> 'w" where
  "try_call func call w =
     (if falsy (fc_name call) then (Inl (new_Error ''Function call missing name''), w)
      else runAiFunction func (the (fc_name call)) (fc_args call) w)"

definition caught :: "js_error + jvalue \<Rightarrow> result_key \<times> jvalue" where
  "caught r = (case r of
       Inr v \<Rightarrow> (Key_output, v)
     | Inl e \<Rightarrow> (Key_error, JStr (''Error: '' @ message e)))"

definition name_or_unknown :: "string option \<Rightarrow> string" where
  "name_or_unknown name = (if falsy name then ''unknown'' else the name)"

definition dispatch ::
  "'w ai_functions \<Rightarrow> function_call \<Rightarrow> 'w agent_state \<Rightarrow> (result_key \<times> jvalue) \<times> 'w agent_state" where
  "dispatch func call st =
     (let (r, w') = try_call func call (world st);
          (key, result) = caught r
      in ((key, result),
          st\<lparr>world := w',
             functionCallHistory := functionCallHistory st @
               [\<lparr>h_name = name_or_unknown (fc_name call), h_args = fc_args call,
                 h_result = result, h_key = key\<rparr>]\<rparr>))"

definition push_call ::
  "function_call \<Rightarrow> result_key \<times> jvalue \<Rightarrow> 'w agent_state \<Rightarrow> 'w agent_state" where
  "push_call call kr st =
     st\<lparr>contents := contents st @
        [\<lparr>role = ''model'', parts = [FunctionCall_part (fc_name call) (fc_args call)]\<rparr>,
         \<lparr>role = ''user'', parts = [FunctionResponse_part (fc_name call) (fst kr) (snd kr)]\<rparr>]\<rparr>"

text \<open>
  The inner \<^verbatim>\<open>for (const call of functionCalls)\<close>. After the dispatch of a
  call named \<^verbatim>\<open>report\<close> the function assigns the arguments to
  \<^verbatim>\<open>finalResult\<close>, reads \<^verbatim>\<open>finalResult.status\<close> for a debug line
  (outside the \<^verbatim>\<open>try\<close>; this throws when the call carries no arguments) and
  returns. The result is \<open>Some (Inr args)\<close> for that return, \<open>Some (Inl e)\<close> for
  that throw, and \<open>None\<close> when the batch was processed to its end.
\<close>

fun process_calls ::
  "'w ai_functions \<Rightarrow> function_call list \<Rightarrow> 'w agent_state \<Rightarrow>
     (js_error + jobject) option \<times> 'w agent_state" where
  "process_calls func [] st = (None, st)"
| "process_calls func (call # rest) st =
     (let (kr, st1) = dispatch func call st
      in if fc_name call = Some ''report''
         then (case fc_args call of
                 None \<Rightarrow> (Some (Inl (property_of_undefined ''status'')), st1)
               | Some finalResult \<Rightarrow> (Some (Inr finalResult), st1))
         else process_calls func rest (push_call call kr st1))"

text \<open>
  How a run of \<^verbatim>\<open>reproduceWithGemini\<close> ends: it throws, or it returns its
  \<^verbatim>\<open>finalResult\<close> (null or the arguments of the report); beside it the final
  state, which holds the two histories it returns.
\<close>

record 'w agent_result =
  outcome :: "js_error + jobject option"
  final :: "'w agent_state"

text \<open>
  How one iteration of the outer loop ends: with the \<^verbatim>\<open>return\<close> or the throw
  inside the inner loop, with the \<^verbatim>\<open>break\<close>, or at the end of its body.
\<close>

datatype 'w iteration =
    Finished "'w agent_result"
  | Break "'w agent_state"
  | Next_iteration "'w agent_state"

definition keep_text :: "nat \<Rightarrow> gen_response \<Rightarrow> 'w agent_state \<Rightarrow> 'w agent_state" where
  "keep_text i response st =
     (case resp_text response of
        None \<Rightarrow> st
      | Some t \<Rightarrow> if t = [] then st
                  else st\<lparr>agentResponses := agentResponses st @ [(i + 1, t)]\<rparr>)"

definition calls_of :: "gen_response \<Rightarrow> function_call list" where
  "calls_of response = (case resp_functionCalls response of None \<Rightarrow> [] | Some cs \<Rightarrow> cs)"

definition reproduce_iteration ::
  "model_backend \<Rightarrow> 'w ai_functions \<Rightarrow> int \<Rightarrow> nat \<Rightarrow> 'w agent_state \<Rightarrow> 'w iteration" where
  "reproduce_iteration genAI func maxIterations i st =
     (let remainingIterations = maxIterations - int i - 1;
          (response, st1) =
             generateContent genAI (Reproducer_instruction remainingIterations maxIterations) st;
          st2 = keep_text i response st1;
          functionCalls = calls_of response
      in if functionCalls = [] then Break st2
         else (case process_calls func functionCalls st2 of
                 (Some (Inr args), st3) \<Rightarrow> Finished \<lparr>outcome = Inr (Some args), final = st3\<rparr>
               | (Some (Inl e), st3) \<Rightarrow> Finished \<lparr>outcome = Inl e, final = st3\<rparr>
               | (None, st3) \<Rightarrow> Next_iteration st3))"

text \<open>
  The two statements after the loop, which a \<^verbatim>\<open>break\<close> reaches as well:
  \<^verbatim>\<open>logger.warn(...)\<close> and the return of the still null
  \<^verbatim>\<open>finalResult\<close>.
\<close>

definition warning :: "log_level \<times> string" where
  "warning = (Warn, ''Reproducer agent exceeded max iterations without reporting a final result.'')"

definition exceeded :: "'w agent_state \<Rightarrow> 'w agent_result" where
  "exceeded st = \<lparr>outcome = Inr None, final = st\<lparr>logger := logger st @ [warning]\<rparr>\<rparr>"

text \<open>
  The outer loop \<^verbatim>\<open>for (let i = 0; i < maxIterations; i++)\<close>. The maximum is
  a number given by the caller; it is taken as an integer, so that a zero or negative
  value runs no iteration.
\<close>

function reproduce_loop ::
  "model_backend \<Rightarrow> 'w ai_functions \<Rightarrow> int \<Rightarrow> nat \<Rightarrow> 'w agent_state \<Rightarrow> 'w agent_result" where
  "reproduce_loop genAI func maxIterations i st =
     (if int i < maxIterations then
        (case reproduce_iteration genAI func maxIterations i st of
           Finished r \<Rightarrow> r
         | Break st' \<Rightarrow> exceeded st'
         | Next_iteration st' \<Rightarrow> reproduce_loop genAI func maxIterations (Suc i) st')
      else exceeded st)"
  by pat_completeness auto
termination
  by (relation "measure (\<lambda>(genAI, func, maxIterations, i, st). nat (maxIterations - int i))") auto

declare reproduce_loop.simps [simp del]

text \<open>
  \<^verbatim>\<open>reproduceWithGemini\<close> from the first iteration of its loop. What it does
  before (making the tools, listing the root directory, composing the prompt) is given by
  the tool map, the text of the initial prompt and the world at that moment. The
  conversation starts with the initial prompt as one user turn, both histories are empty.
\<close>

definition initial_state :: "string \<Rightarrow> (log_level \<times> string) list \<Rightarrow> 'w \<Rightarrow> 'w agent_state" where
  "initial_state initialPrompt lg w =
     \<lparr>contents = [\<lparr>role = ''user'', parts = [Text_part initialPrompt]\<rparr>],
      functionCallHistory = [], agentResponses = [], exchanges = [], logger = lg, world = w\<rparr>"

definition reproduceWithGemini ::
  "model_backend \<Rightarrow> 'w ai_functions \<Rightarrow> string \<Rightarrow> int \<Rightarrow> (log_level \<times> string) list \<Rightarrow> 'w \<Rightarrow> 'w agent_result" where
  "reproduceWithGemini genAI func initialPrompt maxIterations lg w =
     reproduce_loop genAI func maxIterations 0 (initial_state initialPrompt lg w)"


section \<open>The classification agent (agents/filterer, analyzeIssueWithGemini)\<close>

text \<open>
  Reading a property of an object gives \<^verbatim>\<open>undefined\<close> when it is absent.
  The final result is built from five properties of the arguments of
  \<^verbatim>\<open>analyzeIssue\<close>.
\<close>

definition field :: "jobject \<Rightarrow> string \<Rightarrow> jvalue" where
  "field obj k = (case map_of obj k of None \<Rightarrow> JUndefined | Some v \<Rightarrow> v)"

definition filterer_result :: "jobject \<Rightarrow> jobject" where
  "filterer_result resultArgs =
     [(''isFlakyTestIssue'', field resultArgs ''isFlakyTestIssue''),
      (''confidence'', field resultArgs ''confidence''),
      (''summary'', field resultArgs ''summary''),
      (''reasoning'', field resultArgs ''reasoning''),
      (''environment'', field resultArgs ''environment'')]"

text \<open>
  The inner loop tests the name first. On \<^verbatim>\<open>analyzeIssue\<close> it builds the
  result from the arguments and returns it; the first property it reads is
  \<^verbatim>\<open>resultArgs.isFlakyTestIssue\<close>, which throws when the call carries no
  arguments. Any other call is tried, a throw becomes the text
  \<^verbatim>\<open>Error: <message>\<close>, and the result goes into the conversation under the key
  \<^verbatim>\<open>output\<close> in both cases.
\<close>

definition caught_output :: "js_error + jvalue \<Rightarrow> jvalue" where
  "caught_output r = (case r of Inr v \<Rightarrow> v | Inl e \<Rightarrow> JStr (''Error: '' @ message e))"

fun analyze_calls ::
  "'w ai_functions \<Rightarrow> function_call list \<Rightarrow> 'w agent_state \<Rightarrow>
     (js_error + jobject) option \<times> 'w agent_state" where
  "analyze_calls func [] st = (None, st)"
| "analyze_calls func (call # rest) st =
     (if fc_name call = Some ''analyzeIssue''
      then (case fc_args call of
              None \<Rightarrow> (Some (Inl (property_of_undefined ''isFlakyTestIssue'')), st)
            | Some resultArgs \<Rightarrow> (Some (Inr (filterer_result resultArgs)), st))
      else (let (r, w') = try_call func call (world st);
                result = caught_output r
            in analyze_calls func rest (push_call call (Key_output, result) (st\<lparr>world := w'\<rparr>))))"









section \<open>Sample runs\<close>


definition list_src :: function_call where
  "list_src = \<lparr>fc_name = Some ''listDir'', fc_args = Some [(''path'', JStr ''src'')]\<rparr>"


definition verdict :: jobject where
  "verdict = [(''status'', JStr ''failure''), (''reason'', JStr ''not reproducible'')]"

definition reporting_model :: model_backend where
  "reporting_model h rq =
     \<lparr>resp_text = None,
      resp_functionCalls =
        Some [list_src, \<lparr>fc_name = Some ''report'', fc_args = Some verdict\<rparr>, list_src]\<rparr>"

definition bare_report :: function_call where
  "bare_report = \<lparr>fc_name = Some ''report'', fc_args = None\<rparr>"

definition bare_reporting_model :: model_backend where
  "bare_reporting_model h rq =
     \<lparr>resp_text = None, resp_functionCalls = Some [list_src, bare_report, list_src]\<rparr>"

definition classification :: jobject where
  "classification = [(''isFlakyTestIssue'', JBool True), (''confidence'', JNum 90),
     (''reasoning'', JStr ''fails one run in ten'')]"

text \<open>
  A tool set over a world that counts the implementations that ran: a listing tool that
  succeeds, a command tool that throws, and the two finalize tools.
\<close>

definition counted_listDir :: "nat AiFunction" where
  "counted_listDir =
     \<lparr>decl_name = ''listDir'',
      implementation = (\<lambda>args n. (Inr (JArr [JStr ''README.md'']), Suc n))\<rparr>"

definition counted_executeCommand :: "nat AiFunction" where
  "counted_executeCommand =
     \<lparr>decl_name = ''executeCommand'',
      implementation = (\<lambda>args n.
        (Inl (new_Error ''No container has been created yet. Call createContainer first.''), Suc n))\<rparr>"

definition sample_tools :: "nat ai_functions" where
  "sample_tools = fromEntries [counted_listDir, counted_executeCommand, report, analyzeIssue]"

text \<open>
  Calls that fail (a tool that throws, a name that is not in the tool map, a name that is
  not in the tool map but inherited by every object), the two finalize calls, and a tool
  map whose finalize tools count their runs like the other tools.
\<close>

definition run_command :: function_call where
  "run_command =
     \<lparr>fc_name = Some ''executeCommand'', fc_args = Some [(''command'', JStr ''npm test'')]\<rparr>"

definition read_missing :: function_call where
  "read_missing =
     \<lparr>fc_name = Some ''readFile'', fc_args = Some [(''path'', JStr ''package.json'')]\<rparr>"

definition call_constructor :: function_call where
  "call_constructor = \<lparr>fc_name = Some ''constructor'', fc_args = Some []\<rparr>"

definition counted_report :: "nat AiFunction" where
  "counted_report =
     \<lparr>decl_name = ''report'', implementation = (\<lambda>args n. (Inr JUndefined, Suc n))\<rparr>"

definition counted_analyzeIssue :: "nat AiFunction" where
  "counted_analyzeIssue =
     \<lparr>decl_name = ''analyzeIssue'', implementation = (\<lambda>args n. (Inr JUndefined, Suc n))\<rparr>"

definition counted_finalizers :: "nat ai_functions" where
  "counted_finalizers = fromEntries [counted_report, counted_analyzeIssue]"

definition report_call :: function_call where
  "report_call = \<lparr>fc_name = Some ''report'', fc_args = Some verdict\<rparr>"

definition analyzeIssue_call :: function_call where
  "analyzeIssue_call = \<lparr>fc_name = Some ''analyzeIssue'', fc_args = Some classification\<rparr>"

section \<open>Repository explorer (tools/explore, createExploreFunctions)\<close>

text \<open>
  The code-hosting client: \<^verbatim>\<open>octokit.rest.repos.getContent({owner, repo, path})\<close>
  throws an error that carries the HTTP status, or answers with \<^verbatim>\<open>response.data\<close>,
  which is an array of entries for a directory and a single object otherwise (with a type
  and, for a file, the encoded content). The host is outside the program: its answer may
  depend on the request and on all earlier requests and answers.
\<close>

record api_request =
  rq_owner :: string
  rq_repo :: string
  rq_path :: string

record dir_entry =
  entry_name :: string
  entry_type :: string

datatype content_data =
    Listing "dir_entry list"
  | Single string "string option"

type_synonym api_answer = "js_error + content_data"

type_synonym code_host = "(api_request \<times> api_answer) list \<Rightarrow> api_request \<Rightarrow> api_answer"

text \<open>
  \<^verbatim>\<open>repoCache\<close> is typed
  \<^verbatim>\<open>Record<`file:${string}`, string> & Record<`dir:${string}`, string[]>\<close>: a
  map from keys to file texts and lists of names. Every call of
  \<^verbatim>\<open>createExploreFunctions\<close> makes a new cache object, which the two closures
  it returns share; the world holds the cache objects by address, and the log of all calls
  of \<^verbatim>\<open>getContent\<close>.
\<close>

datatype cached = File_text string | Dir_names "string list"

record explore_world =
  caches :: "nat \<Rightarrow> (string \<rightharpoonup> cached)"
  next_cache :: nat
  api_log :: "(api_request \<times> api_answer) list"

record explorer =
  repoFullName :: string
  owner :: string
  repo :: string
  repoCache :: nat

text \<open>\<^verbatim>\<open>repoFullName.split('/')\<close> and the destructuring of its first two parts.\<close>

fun split_on :: "char \<Rightarrow> string \<Rightarrow> string list" where
  "split_on sep [] = [[]]"
| "split_on sep (c # cs) =
     (if c = sep then [] # split_on sep cs
      else (case split_on sep cs of [] \<Rightarrow> [[c]] | p # ps \<Rightarrow> (c # p) # ps))"

definition at :: "'a list \<Rightarrow> nat \<Rightarrow> 'a option" where
  "at xs n = (if n < length xs then Some (xs ! n) else None)"

definition createExploreFunctions ::
  "string \<Rightarrow> explore_world \<Rightarrow> (js_error + explorer) \<times> explore_world" where
  "createExploreFunctions name w =
     (let a = next_cache w;
          w' = w\<lparr>caches := (caches w)(a := Map.empty), next_cache := Suc a\<rparr>;
          parts = split_on CHR ''/'' name;
          owner = at parts 0;
          repo = at parts 1
      in if falsy owner \<or> falsy repo
         then (Inl (new_Error (''Invalid repository name format: '' @ name @
                 ''. Expected '' @ quote @ ''owner/repo'' @ quote)), w')
         else (Inr \<lparr>repoFullName = name, owner = the owner, repo = the repo, repoCache = a\<rparr>, w'))"

definition getContent ::
  "code_host \<Rightarrow> api_request \<Rightarrow> explore_world \<Rightarrow> api_answer \<times> explore_world" where
  "getContent octokit rq w =
     (let answer = octokit (api_log w) rq
      in (answer, w\<lparr>api_log := api_log w @ [(rq, answer)]\<rparr>))"

definition store :: "explorer \<Rightarrow> string \<Rightarrow> cached \<Rightarrow> explore_world \<Rightarrow> explore_world" where
  "store ex cacheKey v w =
     w\<lparr>caches := (caches w)(repoCache ex := (caches w (repoCache ex))(cacheKey \<mapsto> v))\<rparr>"

definition cached_value :: "cached \<Rightarrow> jvalue" where
  "cached_value c = (case c of File_text s \<Rightarrow> JStr s | Dir_names ns \<Rightarrow> JArr (map JStr ns))"

text \<open>
  \<^verbatim>\<open>readFile\<close>: the body of its \<^verbatim>\<open>try\<close>, then the whole
  implementation with the cache test before it and the \<^verbatim>\<open>catch\<close> after it. The
  \<^verbatim>\<open>catch\<close> also receives the errors thrown inside the \<^verbatim>\<open>try\<close> by
  the function itself. The base64 decoder of the runtime is the parameter \<open>decode\<close>.
\<close>

definition readFile_try ::
  "code_host \<Rightarrow> (string \<Rightarrow> string) \<Rightarrow> explorer \<Rightarrow> string \<Rightarrow> string \<Rightarrow> explore_world \<Rightarrow>
     (js_error + string) \<times> explore_world" where
  "readFile_try octokit decode ex path cacheKey w =
     (let (response, w1) =
            getContent octokit \<lparr>rq_owner = owner ex, rq_repo = repo ex, rq_path = path\<rparr> w
      in case response of
           Inl error \<Rightarrow> (Inl error, w1)
         | Inr (Listing items) \<Rightarrow> (Inl (new_Error (path @ '' is a directory, not a file'')), w1)
         | Inr (Single type encoded) \<Rightarrow>
             (case encoded of
                Some c \<Rightarrow>
                  if type = ''file''
                  then (let content = decode c
                        in (Inr content, store ex cacheKey (File_text content) w1))
                  else (Inl (new_Error (''Unable to read file: '' @ path)), w1)
              | None \<Rightarrow> (Inl (new_Error (''Unable to read file: '' @ path)), w1)))"

definition readFile ::
  "code_host \<Rightarrow> (string \<Rightarrow> string) \<Rightarrow> explorer \<Rightarrow> string \<Rightarrow> explore_world \<Rightarrow>
     (js_error + jvalue) \<times> explore_world" where
  "readFile octokit decode ex path w =
     (let cacheKey = ''file:'' @ repoFullName ex @ '':'' @ path
      in case caches w (repoCache ex) cacheKey of
           Some c \<Rightarrow> (Inr (cached_value c), w)
         | None \<Rightarrow>
             (case readFile_try octokit decode ex path cacheKey w of
                (Inr content, w') \<Rightarrow> (Inr (JStr content), w')
              | (Inl error, w') \<Rightarrow>
                  (if status error = Some 404
                   then (Inl (new_Error (''File not found: '' @ path)), w')
                   else (Inl (new_Error (''Failed to read file '' @ path @ '': '' @ message error)), w'))))"

definition listDir_try ::
  "code_host \<Rightarrow> explorer \<Rightarrow> string \<Rightarrow> string \<Rightarrow> explore_world \<Rightarrow>
     (js_error + string list) \<times> explore_world" where
  "listDir_try octokit ex path cacheKey w =
     (let (response, w1) =
            getContent octokit
              \<lparr>rq_owner = owner ex, rq_repo = repo ex,
               rq_path = (if path = ''.'' then [] else path)\<rparr> w
      in case response of
           Inl error \<Rightarrow> (Inl error, w1)
         | Inr (Listing items) \<Rightarrow>
             (let names = map entry_name items
              in (Inr names, store ex cacheKey (Dir_names names) w1))
         | Inr (Single type encoded) \<Rightarrow>
             (Inl (new_Error (path @ '' is a file, not a directory'')), w1))"

definition listDir ::
  "code_host \<Rightarrow> explorer \<Rightarrow> string \<Rightarrow> explore_world \<Rightarrow> (js_error + jvalue) \<times> explore_world" where
  "listDir octokit ex path w =
     (let cacheKey = ''dir:'' @ repoFullName ex @ '':'' @ path
      in case caches w (repoCache ex) cacheKey of
           Some c \<Rightarrow> (Inr (cached_value c), w)
         | None \<Rightarrow>
             (case listDir_try octokit ex path cacheKey w of
                (Inr names, w') \<Rightarrow> (Inr (JArr (map JStr names)), w')
              | (Inl error, w') \<Rightarrow>
                  (if status error = Some 404
                   then (Inl (new_Error (''Directory not found: '' @ path)), w')
                   else (Inl (new_Error (''Failed to list directory '' @ path @ '': '' @ message error)), w'))))"

text \<open>
  Any sequence of calls of the two tools, of any explorer instances, run one after the
  other: what may happen between two calls that a property speaks about.
\<close>

datatype explore_call = ReadFile explorer string | ListDir explorer string

definition explore ::
  "code_host \<Rightarrow> (string \<Rightarrow> string) \<Rightarrow> explore_call \<Rightarrow> explore_world \<Rightarrow>
     (js_error + jvalue) \<times> explore_world" where
  "explore octokit decode c w =
     (case c of
        ReadFile ex path \<Rightarrow> readFile octokit decode ex path w
      | ListDir ex path \<Rightarrow> listDir octokit ex path w)"

fun explore_all ::
  "code_host \<Rightarrow> (string \<Rightarrow> string) \<Rightarrow> explore_call list \<Rightarrow> explore_world \<Rightarrow> explore_world" where
  "explore_all octokit decode [] w = w"
| "explore_all octokit decode (c # cs) w =
     explore_all octokit decode cs (snd (explore octokit decode c w))"

definition empty_world :: explore_world where
  "empty_world = \<lparr>caches = (\<lambda>a. Map.empty), next_cache = 0, api_log = []\<rparr>"

text \<open>
  A sample host: \<^verbatim>\<open>shared.txt\<close> is a file whose content names its repository,
  \<^verbatim>\<open>src\<close> and the root are directories, \<^verbatim>\<open>private\<close> is forbidden,
  and everything else is missing.
\<close>

definition sample_host :: code_host where
  "sample_host lg rq =
     (if rq_path rq = ''shared.txt''
        then Inr (Single ''file'' (Some (''Content from '' @ rq_owner rq @ ''/'' @ rq_repo rq)))
      else if rq_path rq = ''src'' \<or> rq_path rq = []
        then Inr (Listing [\<lparr>entry_name = ''index.js'', entry_type = ''file''\<rparr>,
                           \<lparr>entry_name = ''lib'', entry_type = ''dir''\<rparr>])
      else if rq_path rq = ''private''
        then Inl \<lparr>status = Some 403, message = ''Forbidden''\<rparr>
      else Inl \<lparr>status = Some 404, message = ''Not Found''\<rparr>)"

definition plain :: "string \<Rightarrow> string" where
  "plain s = s"

definition test_explorer :: explorer where
  "test_explorer = \<lparr>repoFullName = ''test-owner/test-repo'', owner = ''test-owner'',
     repo = ''test-repo'', repoCache = 0\<rparr>"

definition first_explorer :: explorer where
  "first_explorer = \<lparr>repoFullName = ''repo1/owner1'', owner = ''repo1'', repo = ''owner1'',
     repoCache = 0\<rparr>"

definition second_explorer :: explorer where
  "second_explorer = \<lparr>repoFullName = ''repo2/owner2'', owner = ''repo2'', repo = ''owner2'',
     repoCache = 1\<rparr>"

definition one_explorer :: explore_world where
  "one_explorer = snd (createExploreFunctions ''repo1/owner1'' empty_world)"

definition two_explorers :: explore_world where
  "two_explorers = snd (createExploreFunctions ''repo2/owner2'' one_explorer)"

section \<open>Sandbox manager (tools/docker, createDockerFunctions; utils/tmpdir)\<close>

text \<open>
  What the container runtime is asked and what it answers. A build is asked with the
  context directory, the names of the files to send from it (\<^verbatim>\<open>src\<close>), the
  content of these files as they are on disk at that moment, and the tag. Its outcome is a
  rejected call, a progress stream that ends with an error, or the list of progress steps,
  each of which may carry an \<^verbatim>\<open>errorDetail\<close> (with or without a message) and
  an \<^verbatim>\<open>error\<close> text.
\<close>

record build_request =
  br_context :: string
  br_src :: "string list"
  br_files :: "(string \<times> string option) list"
  br_tag :: string

record build_step =
  step_errorDetail :: "string option option"
  step_error :: "string option"

datatype build_outcome =
    Rejected js_error
  | Progress_failed js_error
  | Progress "build_step list"

record create_request =
  cr_Image :: string
  cr_Cmd :: "string list"
  cr_Tty :: bool
  cr_OpenStdin :: bool
  cr_Binds :: "string list"

datatype docker_event =
    Build build_request build_outcome
  | Inspect_image string "js_error option"
  | Create_container create_request "js_error + string"
  | Start_container string "js_error option"

text \<open>
  Everything outside the program that the sandbox manager relies on: the system's temporary
  directory, the text \<^verbatim>\<open>${Date.now()}-${Math.random().toString(36).slice(2, 9)}\<close>
  that the \<open>k\<close>-th call of \<^verbatim>\<open>TmpDirManager.create\<close> gets from the clock and
  the random source, the result of \<^verbatim>\<open>git clone <url> <dir>\<close> (an error, or the
  files of the repository by their paths relative to the directory), and the container
  runtime, whose answers may depend on everything it was asked before.
\<close>

record sandbox_env =
  tmpdir :: string
  stamp :: "nat \<Rightarrow> string"
  git_clone :: "string \<Rightarrow> string \<Rightarrow> js_error + (string \<times> string) list"
  build :: "docker_event list \<Rightarrow> build_request \<Rightarrow> build_outcome"
  inspect_image :: "docker_event list \<Rightarrow> string \<Rightarrow> js_error option"
  create_container :: "docker_event list \<Rightarrow> create_request \<Rightarrow> js_error + string"
  start_container :: "docker_event list \<Rightarrow> string \<Rightarrow> js_error option"

text \<open>
  The state shared by the whole process: the set \<^verbatim>\<open>dirs\<close> of the one
  \<^verbatim>\<open>TmpDirManager\<close>, the number of directories it has created, the directories
  and files on disk, and the log of the calls to the container runtime.
\<close>

record sandbox_world =
  dirs :: "string set"
  created :: nat
  directories :: "string set"
  files :: "string \<rightharpoonup> string"
  docker_log :: "docker_event list"

text \<open>
  The variables captured by the three closures of one call of
  \<^verbatim>\<open>createDockerFunctions\<close>.
\<close>

record sandbox =
  repoUrl :: "string option"
  repoDir :: "string option"
  containerId :: "string option"












text \<open>
  \<^verbatim>\<open>createContainer\<close>: the only reader of \<^verbatim>\<open>repoDir\<close>, which it binds
  at \<^verbatim>\<open>/workspace\<close>.
\<close>

definition container_request :: "string \<Rightarrow> sandbox \<Rightarrow> create_request" where
  "container_request imageName sb =
     \<lparr>cr_Image = imageName, cr_Cmd = [''tail'', ''-f'', ''/dev/null''], cr_Tty = True,
      cr_OpenStdin = True,
      cr_Binds = (case repoDir sb of
                    None \<Rightarrow> []
                  | Some dir \<Rightarrow> if dir = [] then [] else [dir @ '':/workspace''])\<rparr>"

definition createContainer ::
  "sandbox_env \<Rightarrow> string \<Rightarrow> sandbox \<Rightarrow> sandbox_world \<Rightarrow>
     (js_error + jvalue) \<times> sandbox \<times> sandbox_world" where
  "createContainer env imageName sb w =
     (let rq = container_request imageName sb;
          made = create_container env (docker_log w) rq;
          w1 = w\<lparr>docker_log := docker_log w @ [Create_container rq made]\<rparr>
      in case made of
           Inl e \<Rightarrow> (Inl e, sb, w1)
         | Inr ident \<Rightarrow>
             (let started = start_container env (docker_log w1) ident;
                  w2 = w1\<lparr>docker_log := docker_log w1 @ [Start_container ident started]\<rparr>
              in case started of
                   Some e \<Rightarrow> (Inl e, sb, w2)
                 | None \<Rightarrow> (Inr (JStr ident), sb\<lparr>containerId := Some ident\<rparr>, w2)))"









section \<open>Properties of the agent loops\<close>

subsection \<open>What one call and one batch leave untouched\<close>

lemma dispatch_frame:
  "exchanges (snd (dispatch func c st)) = exchanges st"
  "logger (snd (dispatch func c st)) = logger st"
  "contents (snd (dispatch func c st)) = contents st"
  "agentResponses (snd (dispatch func c st)) = agentResponses st"
  by (simp_all add: dispatch_def split: prod.splits)

lemma push_call_frame:
  "exchanges (push_call c kr st) = exchanges st"
  "logger (push_call c kr st) = logger st"
  "functionCallHistory (push_call c kr st) = functionCallHistory st"
  "world (push_call c kr st) = world st"
  by (simp_all add: push_call_def)

lemma keep_text_frame:
  "exchanges (keep_text i r st) = exchanges st"
  "logger (keep_text i r st) = logger st"
  "functionCallHistory (keep_text i r st) = functionCallHistory st"
  by (simp_all add: keep_text_def split: option.splits)

lemma process_calls_frame:
  "exchanges (snd (process_calls func cs st)) = exchanges st \<and>
   logger (snd (process_calls func cs st)) = logger st"
proof (induction cs arbitrary: st)
  case Nil
  show ?case by simp
next
  case (Cons c cs)
  obtain kr st1 where d: "dispatch func c st = (kr, st1)" by (cases "dispatch func c st")
  have f: "exchanges st1 = exchanges st" "logger st1 = logger st"
    using dispatch_frame(1,2) [of func c st] d by simp_all
  show ?case
    using Cons.IH [of "push_call c kr st1"] d f
    by (simp add: push_call_frame split: option.splits)
qed


lemma process_calls_first_report:
  assumes "\<forall>c \<in> set pre. fc_name c \<noteq> Some ''report''" and "fc_name call = Some ''report''"
  shows "process_calls func (pre @ call # post) st =
           (Some (case fc_args call of
                    None \<Rightarrow> Inl (property_of_undefined ''status'')
                  | Some args \<Rightarrow> Inr args),
            snd (dispatch func call (snd (process_calls func pre st))))"
  using assms(1)
proof (induction pre arbitrary: st)
  case Nil
  show ?case using assms(2) by (simp split: prod.splits option.splits)
next
  case (Cons c pre)
  obtain kr st1 where d: "dispatch func c st = (kr, st1)" by (cases "dispatch func c st")
  show ?case using Cons d by simp
qed

lemma dispatch_history:
  "map h_name (functionCallHistory (snd (dispatch func c st))) =
     map h_name (functionCallHistory st) @ [name_or_unknown (fc_name c)]"
  by (simp add: dispatch_def split: prod.splits)

lemma process_calls_history:
  assumes "\<forall>c \<in> set cs. fc_name c \<noteq> Some ''report''"
  shows "map h_name (functionCallHistory (snd (process_calls func cs st))) =
           map h_name (functionCallHistory st) @ map (\<lambda>c. name_or_unknown (fc_name c)) cs"
  using assms
proof (induction cs arbitrary: st)
  case Nil
  show ?case by simp
next
  case (Cons c cs)
  obtain kr st1 where d: "dispatch func c st = (kr, st1)" by (cases "dispatch func c st")
  have h: "map h_name (functionCallHistory st1) =
      map h_name (functionCallHistory st) @ [name_or_unknown (fc_name c)]"
    using dispatch_history [of func c st] d by simp
  show ?case using Cons.IH [of "push_call c kr st1"] Cons.prems d h
    by (simp add: push_call_frame)
qed

subsection \<open>One iteration and the whole loop of the reproducer\<close>






subsection \<open>The loop of the filterer\<close>









subsection \<open>The finalize call inside a batch\<close>

lemma iteration_with_report:
  assumes "calls_of (genAI (exchanges st) (request_of (Reproducer_instruction (N - int i - 1) N) st)) =
      pre @ call # post"
    and "fc_name call = Some ''report''"
    and "\<forall>c \<in> set pre. fc_name c \<noteq> Some ''report''"
  shows "reproduce_iteration genAI func N i st =
     Finished \<lparr>outcome = (case fc_args call of
                    None \<Rightarrow> Inl (property_of_undefined ''status'')
                  | Some args \<Rightarrow> Inr (Some args)),
       final = snd (dispatch func call (snd (process_calls func pre
         (keep_text i (genAI (exchanges st) (request_of (Reproducer_instruction (N - int i - 1) N) st))
           (snd (generateContent genAI (Reproducer_instruction (N - int i - 1) N) st))))))\<rparr>"
  using assms(1) process_calls_first_report [OF assms(3,2), of func post]
  by (simp add: reproduce_iteration_def generateContent_def Let_def split: option.splits)

text \<open>
  A batch that holds a \<^verbatim>\<open>report\<close> call (the first one, after the calls \<open>pre\<close>
  and before the calls \<open>post\<close>) ends the run in this very iteration: one more exchange
  with the model and none after it, the calls \<open>post\<close> are not dispatched, and the call
  history grows by the records of \<open>pre\<close> and of the \<^verbatim>\<open>report\<close> call only.
  The run returns the arguments of the call when it carries some, and throws a
  \<^verbatim>\<open>TypeError\<close> when it carries none.
\<close>

lemma report_ends_the_loop:
  assumes "int i < N"
    and "calls_of (genAI (exchanges st) (request_of (Reproducer_instruction (N - int i - 1) N) st)) =
      pre @ call # post"
    and "fc_name call = Some ''report''"
    and "\<forall>c \<in> set pre. fc_name c \<noteq> Some ''report''"
  shows "reproduce_loop genAI func N i st =
       \<lparr>outcome = (case fc_args call of
                     None \<Rightarrow> Inl (property_of_undefined ''status'')
                   | Some args \<Rightarrow> Inr (Some args)),
        final = snd (dispatch func call (snd (process_calls func pre
          (keep_text i (genAI (exchanges st) (request_of (Reproducer_instruction (N - int i - 1) N) st))
            (snd (generateContent genAI (Reproducer_instruction (N - int i - 1) N) st))))))\<rparr> \<and>
     map h_name (functionCallHistory (final (reproduce_loop genAI func N i st))) =
       map h_name (functionCallHistory st) @ map (\<lambda>c. name_or_unknown (fc_name c)) (pre @ [call]) \<and>
     exchanges (final (reproduce_loop genAI func N i st)) =
       exchanges st @ [(request_of (Reproducer_instruction (N - int i - 1) N) st,
         genAI (exchanges st) (request_of (Reproducer_instruction (N - int i - 1) N) st))]"
proof -
  define response where
    "response = genAI (exchanges st) (request_of (Reproducer_instruction (N - int i - 1) N) st)"
  define st2 where
    "st2 = keep_text i response (snd (generateContent genAI (Reproducer_instruction (N - int i - 1) N) st))"
  define F where "F = snd (dispatch func call (snd (process_calls func pre st2)))"
  define out where "out = (case fc_args call of
                     None \<Rightarrow> Inl (property_of_undefined ''status'')
                   | Some args \<Rightarrow> Inr (Some args))"
  have r: "reproduce_loop genAI func N i st = \<lparr>outcome = out, final = F\<rparr>"
    using assms(1)
      iteration_with_report [where genAI = genAI and st = st and N = N and i = i and pre = pre
        and call = call and post = post and func = func, OF assms(2,3,4)]
    by (simp add: reproduce_loop.simps [of genAI func N i st] F_def st2_def response_def out_def)
  have st2: "functionCallHistory st2 = functionCallHistory st"
    "exchanges st2 = exchanges st @
       [(request_of (Reproducer_instruction (N - int i - 1) N) st, response)]"
    by (simp_all add: st2_def keep_text_frame generateContent_def Let_def response_def)
  have h: "map h_name (functionCallHistory F) =
      map h_name (functionCallHistory st) @ map (\<lambda>c. name_or_unknown (fc_name c)) (pre @ [call])"
    using process_calls_history [OF assms(4), of func st2] st2(1)
    by (simp add: F_def dispatch_history)
  have x: "exchanges F = exchanges st @
       [(request_of (Reproducer_instruction (N - int i - 1) N) st, response)]"
    using process_calls_frame [of func pre st2] st2(2) by (simp add: F_def dispatch_frame)
  show ?thesis
    using r h x by (simp add: F_def st2_def response_def out_def)
qed

lemma report_with_arguments_sample:
  "outcome (reproduceWithGemini reporting_model sample_tools ''prompt'' 5 [] 0) = Inr (Some verdict) \<and>
   map h_name (functionCallHistory (final
     (reproduceWithGemini reporting_model sample_tools ''prompt'' 5 [] 0))) = [''listDir'', ''report''] \<and>
   world (final (reproduceWithGemini reporting_model sample_tools ''prompt'' 5 [] 0)) = 1 \<and>
   length (exchanges (final (reproduceWithGemini reporting_model sample_tools ''prompt'' 5 [] 0))) = 1"
  by code_simp

text \<open>
  C3. The claim fails on a \<^verbatim>\<open>report\<close> call that carries no arguments, which the
  type of a function call allows. The model's first turn holds a listing call, such a
  \<^verbatim>\<open>report\<close> call and another listing call. The reproduction loop dispatches the
  first two (the listing tool runs once, the call history holds the two records), asks the
  model nothing more, and then, instead of returning the call's arguments as the result,
  throws \<^verbatim>\<open>TypeError: Cannot read properties of undefined (reading 'status')\<close>
  to its caller; the histories are lost with it.
\<close>

theorem report_without_arguments_throws:
  "outcome (reproduceWithGemini bare_reporting_model sample_tools ''prompt'' 5 [] 0) =
     Inl \<lparr>status = None,
          message = ''Cannot read properties of undefined (reading '' @ quote @ ''status'' @ quote @ '')''\<rparr> \<and>
   functionCallHistory (final (reproduceWithGemini bare_reporting_model sample_tools ''prompt'' 5 [] 0)) =
     [\<lparr>h_name = ''listDir'', h_args = Some [(''path'', JStr ''src'')],
       h_result = JArr [JStr ''README.md''], h_key = Key_output\<rparr>,
      \<lparr>h_name = ''report'', h_args = None, h_result = JUndefined, h_key = Key_output\<rparr>] \<and>
   world (final (reproduceWithGemini bare_reporting_model sample_tools ''prompt'' 5 [] 0)) = 1 \<and>
   length (exchanges (final (reproduceWithGemini bare_reporting_model sample_tools ''prompt'' 5 [] 0))) = 1 \<and>
   logger (final (reproduceWithGemini bare_reporting_model sample_tools ''prompt'' 5 [] 0)) = []"
  by code_simp

subsection \<open>A tool that throws\<close>

lemma report_never_throws:
  assumes "func ''report'' = Some report" and "fc_name call = Some ''report''"
  shows "try_call func call w = (Inr JUndefined, w)"
  using assms
  by (simp add: try_call_def falsy_def runAiFunction_def report_def dummy_implementation_def)

text \<open>
  A name that the tool map does not own makes \<^verbatim>\<open>runAiFunction\<close> throw:
  \<^verbatim>\<open>Function '<name>' not found\<close>, unless every object inherits a property of
  that name, and then \<^verbatim>\<open>f.implementation is not a function\<close>. Whenever the
  dispatch of a call throws an error \<open>e\<close> (a missing name, an absent tool, or an
  implementation that throws), the reproduction loop pushes a record with the key
  \<^verbatim>\<open>error\<close> and the result \<^verbatim>\<open>Error: <message of e>\<close> on the call
  history, appends the call and the same error result to the conversation, and goes on with
  the remaining calls of the batch (and, when there is none, with the next iteration):
  nothing is thrown out of the loop.
\<close>

lemma tool_failure_is_recorded:
  assumes "func ''report'' = Some report"
    and "try_call func call (world st) = (Inl e, w')"
  shows "(func name = None \<and> name \<notin> set object_prototype_names \<longrightarrow>
        runAiFunction func name args w =
          (Inl (new_Error (''Function '' @ quote @ name @ quote @ '' not found'')), w)) \<and>
     (func name = None \<and> name \<in> set object_prototype_names \<longrightarrow>
        runAiFunction func name args w =
          (Inl (new_Error ''f.implementation is not a function''), w)) \<and>
     process_calls func (call # rest) st =
       process_calls func rest
         (st\<lparr>world := w',
             functionCallHistory := functionCallHistory st @
               [\<lparr>h_name = name_or_unknown (fc_name call), h_args = fc_args call,
                 h_result = JStr (''Error: '' @ message e), h_key = Key_error\<rparr>],
             contents := contents st @
               [\<lparr>role = ''model'', parts = [FunctionCall_part (fc_name call) (fc_args call)]\<rparr>,
                \<lparr>role = ''user'', parts = [FunctionResponse_part (fc_name call) Key_error
                   (JStr (''Error: '' @ message e))]\<rparr>]\<rparr>) \<and>
     (rest = [] \<longrightarrow> fst (process_calls func (call # rest) st) = None)"
proof -
  have nr: "fc_name call \<noteq> Some ''report''"
    using report_never_throws [where func = func and call = call and w = "world st"] assms
    by auto
  have p: "process_calls func (call # rest) st =
       process_calls func rest
         (st\<lparr>world := w',
             functionCallHistory := functionCallHistory st @
               [\<lparr>h_name = name_or_unknown (fc_name call), h_args = fc_args call,
                 h_result = JStr (''Error: '' @ message e), h_key = Key_error\<rparr>],
             contents := contents st @
               [\<lparr>role = ''model'', parts = [FunctionCall_part (fc_name call) (fc_args call)]\<rparr>,
                \<lparr>role = ''user'', parts = [FunctionResponse_part (fc_name call) Key_error
                   (JStr (''Error: '' @ message e))]\<rparr>]\<rparr>)"
    using nr assms(2) by (simp add: dispatch_def caught_def push_call_def)
  have q: "rest = [] \<longrightarrow> fst (process_calls func (call # rest) st) = None"
    unfolding p by simp
  have f: "func name = None \<and> name \<notin> set object_prototype_names \<longrightarrow>
        runAiFunction func name args w =
          (Inl (new_Error (''Function '' @ quote @ name @ quote @ '' not found'')), w)"
    by (simp add: runAiFunction_def)
  have g: "func name = None \<and> name \<in> set object_prototype_names \<longrightarrow>
        runAiFunction func name args w =
          (Inl (new_Error ''f.implementation is not a function''), w)"
    by (simp add: runAiFunction_def)
  show ?thesis using f g p q by blast
qed

lemma tool_failure_sample:
  "runAiFunction sample_tools ''readFile'' (Some [(''path'', JStr ''package.json'')]) 0 =
     (Inl (new_Error (''Function '' @ quote @ ''readFile'' @ quote @ '' not found'')), 0) \<and>
   process_calls sample_tools [run_command, list_src] (initial_state ''prompt'' [] 0) =
     process_calls sample_tools [list_src]
       ((initial_state ''prompt'' [] 0)
          \<lparr>world := 1,
           functionCallHistory :=
             [\<lparr>h_name = ''executeCommand'', h_args = Some [(''command'', JStr ''npm test'')],
               h_result = JStr ''Error: No container has been created yet. Call createContainer first.'',
               h_key = Key_error\<rparr>],
           contents := contents (initial_state ''prompt'' [] 0) @
             [\<lparr>role = ''model'', parts = [FunctionCall_part (Some ''executeCommand'')
                 (Some [(''command'', JStr ''npm test'')])]\<rparr>,
              \<lparr>role = ''user'', parts = [FunctionResponse_part (Some ''executeCommand'') Key_error
                 (JStr ''Error: No container has been created yet. Call createContainer first.'')]\<rparr>]\<rparr>) \<and>
   fst (process_calls sample_tools [read_missing] (initial_state ''prompt'' [] 0)) = None"
proof -
  have r: "sample_tools ''report'' = Some report"
    by (simp add: sample_tools_def fromEntries_def report_def analyzeIssue_def
        counted_listDir_def counted_executeCommand_def)
  have m: "sample_tools ''readFile'' = None" "''readFile'' \<notin> set object_prototype_names"
    by (simp_all add: sample_tools_def fromEntries_def report_def analyzeIssue_def
        counted_listDir_def counted_executeCommand_def object_prototype_names_def)
  have t1: "try_call sample_tools run_command (world (initial_state ''prompt'' [] 0)) =
      (Inl (new_Error ''No container has been created yet. Call createContainer first.''), 1)"
    by (simp add: try_call_def run_command_def falsy_def runAiFunction_def sample_tools_def
        fromEntries_def report_def analyzeIssue_def counted_listDir_def counted_executeCommand_def
        initial_state_def)
  have t2: "try_call sample_tools read_missing (world (initial_state ''prompt'' [] 0)) =
      (Inl (new_Error (''Function '' @ quote @ ''readFile'' @ quote @ '' not found'')), 0)"
    using m by (simp add: try_call_def read_missing_def falsy_def runAiFunction_def initial_state_def)
  from tool_failure_is_recorded [where func = sample_tools and call = run_command
      and st = "initial_state ''prompt'' [] 0" and rest = "[list_src]" and name = "''readFile''"
      and args = "Some [(''path'', JStr ''package.json'')]" and w = 0, OF r t1]
    tool_failure_is_recorded [where func = sample_tools and call = read_missing
      and st = "initial_state ''prompt'' [] 0" and rest = "[]" and name = "''readFile''"
      and args = "Some [(''path'', JStr ''package.json'')]" and w = 0, OF r t2] m
  show ?thesis
    by (simp add: run_command_def new_Error_def name_or_unknown_def falsy_def initial_state_def)
qed

text \<open>
  C4. The claim fails on a call whose name the tool map does not hold but every object
  inherits, here \<^verbatim>\<open>constructor\<close>. The registry does not fail with its
  \<^verbatim>\<open>Function 'constructor' not found\<close> error: the lookup finds the inherited
  property, and the call of its missing implementation throws
  \<^verbatim>\<open>f.implementation is not a function\<close>. The loop records this other message
  under the key \<^verbatim>\<open>error\<close>, in the call history and in the conversation, and
  goes on; no tool ran.
\<close>

theorem inherited_name_is_not_reported_missing:
  "sample_tools ''constructor'' = None \<and>
   runAiFunction sample_tools ''constructor'' (Some []) 0 =
     (Inl \<lparr>status = None, message = ''f.implementation is not a function''\<rparr>, 0) \<and>
   runAiFunction sample_tools ''constructor'' (Some []) 0 \<noteq>
     (Inl (new_Error (''Function '' @ quote @ ''constructor'' @ quote @ '' not found'')), 0) \<and>
   process_calls sample_tools [call_constructor] (initial_state ''prompt'' [] 0) =
     (None,
      (initial_state ''prompt'' [] 0)
        \<lparr>functionCallHistory :=
           [\<lparr>h_name = ''constructor'', h_args = Some [],
             h_result = JStr ''Error: f.implementation is not a function'', h_key = Key_error\<rparr>],
         contents := contents (initial_state ''prompt'' [] 0) @
           [\<lparr>role = ''model'', parts = [FunctionCall_part (Some ''constructor'') (Some [])]\<rparr>,
            \<lparr>role = ''user'', parts = [FunctionResponse_part (Some ''constructor'') Key_error
               (JStr ''Error: f.implementation is not a function'')]\<rparr>]\<rparr>)"
  by (simp add: sample_tools_def fromEntries_def report_def analyzeIssue_def
      counted_listDir_def counted_executeCommand_def runAiFunction_def object_prototype_names_def
      new_Error_def quote_def call_constructor_def dispatch_def try_call_def falsy_def
      name_or_unknown_def caught_def push_call_def initial_state_def)

subsection \<open>How the two loops treat the finalize call\<close>

text \<open>
  C9 (as amended). The implementations of \<^verbatim>\<open>report\<close> and
  \<^verbatim>\<open>analyzeIssue\<close> return \<^verbatim>\<open>undefined\<close> and change nothing. For a
  finalize call that carries arguments: the classification loop tests the name before it
  dispatches; on \<^verbatim>\<open>analyzeIssue\<close> it returns the result built from the call's
  arguments and leaves the whole state as it was, whatever the tool map holds. The
  reproduction loop dispatches first and tests the name afterwards: on
  \<^verbatim>\<open>report\<close> it runs the implementation \<open>f\<close> registered under that name,
  pushes the outcome on the call history, and then returns the call's arguments; with the
  registered no-op the world is unchanged and the record holds \<^verbatim>\<open>undefined\<close>
  under the key \<^verbatim>\<open>output\<close>.
\<close>

theorem finalize_call_handling:
  "implementation report args w = (Inr JUndefined, w) \<and>
   implementation analyzeIssue args w = (Inr JUndefined, w) \<and>
   (fc_name call = Some ''analyzeIssue'' \<and> fc_args call = Some a \<longrightarrow>
      analyze_calls func (call # rest) st = (Some (Inr (filterer_result a)), st)) \<and>
   (fc_name call = Some ''report'' \<and> fc_args call = Some a \<and> func ''report'' = Some f \<longrightarrow>
      process_calls func (call # rest) st =
        (Some (Inr a),
         st\<lparr>world := snd (implementation f (Some a) (world st)),
            functionCallHistory := functionCallHistory st @
              [\<lparr>h_name = ''report'', h_args = Some a,
                h_result = snd (caught (fst (implementation f (Some a) (world st)))),
                h_key = fst (caught (fst (implementation f (Some a) (world st))))\<rparr>]\<rparr>)) \<and>
   (fc_name call = Some ''report'' \<and> fc_args call = Some a \<and> func ''report'' = Some report \<longrightarrow>
      process_calls func (call # rest) st =
        (Some (Inr a),
         st\<lparr>functionCallHistory := functionCallHistory st @
              [\<lparr>h_name = ''report'', h_args = Some a,
                h_result = JUndefined, h_key = Key_output\<rparr>]\<rparr>))"
  by (simp add: report_def analyzeIssue_def dummy_implementation_def dispatch_def try_call_def
      falsy_def runAiFunction_def name_or_unknown_def caught_def split: prod.splits)

theorem finalize_call_handling_witness:
  "analyze_calls counted_finalizers [analyzeIssue_call, list_src] (initial_state ''prompt'' [] 0) =
     (Some (Inr (filterer_result classification)), initial_state ''prompt'' [] 0) \<and>
   process_calls counted_finalizers [report_call, list_src] (initial_state ''prompt'' [] 0) =
     (Some (Inr verdict),
      (initial_state ''prompt'' [] 0)
        \<lparr>world := 1,
         functionCallHistory :=
           [\<lparr>h_name = ''report'', h_args = Some verdict, h_result = JUndefined, h_key = Key_output\<rparr>]\<rparr>) \<and>
   process_calls sample_tools [report_call, list_src] (initial_state ''prompt'' [] 0) =
     (Some (Inr verdict),
      (initial_state ''prompt'' [] 0)
        \<lparr>functionCallHistory :=
           [\<lparr>h_name = ''report'', h_args = Some verdict, h_result = JUndefined, h_key = Key_output\<rparr>]\<rparr>)"
proof -
  have c: "counted_finalizers ''report'' = Some counted_report"
    by (simp add: counted_finalizers_def fromEntries_def counted_report_def counted_analyzeIssue_def)
  have r: "sample_tools ''report'' = Some report"
    by (simp add: sample_tools_def fromEntries_def report_def analyzeIssue_def
        counted_listDir_def counted_executeCommand_def)
  have na: "fc_name analyzeIssue_call = Some ''analyzeIssue''" "fc_args analyzeIssue_call = Some classification"
    and nr: "fc_name report_call = Some ''report''" "fc_args report_call = Some verdict"
    by (simp_all add: analyzeIssue_call_def report_call_def)
  have a: "analyze_calls counted_finalizers [analyzeIssue_call, list_src] (initial_state ''prompt'' [] 0) =
     (Some (Inr (filterer_result classification)), initial_state ''prompt'' [] 0)"
    using finalize_call_handling [where call = analyzeIssue_call and func = counted_finalizers
      and rest = "[list_src]" and st = "initial_state ''prompt'' [] 0" and args = "Some verdict"
      and w = "0::nat" and a = classification] na
    by (simp del: analyze_calls.simps process_calls.simps)
  have b: "process_calls counted_finalizers [report_call, list_src] (initial_state ''prompt'' [] 0) =
     (Some (Inr verdict),
      (initial_state ''prompt'' [] 0)
        \<lparr>world := 1,
         functionCallHistory :=
           [\<lparr>h_name = ''report'', h_args = Some verdict, h_result = JUndefined, h_key = Key_output\<rparr>]\<rparr>)"
    using finalize_call_handling [where call = report_call and func = counted_finalizers
      and rest = "[list_src]" and st = "initial_state ''prompt'' [] 0" and f = counted_report
      and args = "Some verdict" and w = "0::nat" and a = verdict] nr c
    by (simp del: analyze_calls.simps process_calls.simps
        add: counted_report_def caught_def initial_state_def)
  have d: "process_calls sample_tools [report_call, list_src] (initial_state ''prompt'' [] 0) =
     (Some (Inr verdict),
      (initial_state ''prompt'' [] 0)
        \<lparr>functionCallHistory :=
           [\<lparr>h_name = ''report'', h_args = Some verdict, h_result = JUndefined, h_key = Key_output\<rparr>]\<rparr>)"
    using finalize_call_handling [where call = report_call and func = sample_tools
      and rest = "[list_src]" and st = "initial_state ''prompt'' [] 0" and args = "Some verdict"
      and w = "0::nat" and a = verdict] nr r
    by (simp del: analyze_calls.simps process_calls.simps add: initial_state_def)
  show ?thesis using a b d by blast
qed

theorem finalize_call_handling_counterexample:
  "process_calls sample_tools [report_call] (initial_state ''prompt'' [] 0) =
     (Some (Inr verdict),
      (initial_state ''prompt'' [] 0)
        \<lparr>functionCallHistory :=
           [\<lparr>h_name = ''report'', h_args = Some verdict, h_result = JUndefined, h_key = Key_output\<rparr>]\<rparr>) \<and>
   world (snd (process_calls counted_finalizers [report_call] (initial_state ''prompt'' [] 0))) = 1 \<and>
   world (snd (analyze_calls counted_finalizers [analyzeIssue_call] (initial_state ''prompt'' [] 0))) = 0"
  by (simp add: sample_tools_def counted_finalizers_def fromEntries_def report_def analyzeIssue_def
      counted_listDir_def counted_executeCommand_def counted_report_def counted_analyzeIssue_def
      report_call_def analyzeIssue_call_def dispatch_def try_call_def falsy_def runAiFunction_def
      name_or_unknown_def caught_def dummy_implementation_def initial_state_def)

section \<open>Properties of the repository explorer\<close>

subsection \<open>One call\<close>

lemma getContent_eq:
  "getContent octokit rq w =
     (octokit (api_log w) rq, w\<lparr>api_log := api_log w @ [(rq, octokit (api_log w) rq)]\<rparr>)"
  by (simp add: getContent_def Let_def)

lemma readFile_try_world:
  "snd (readFile_try octokit decode ex path key w) =
     (case fst (readFile_try octokit decode ex path key w) of
        Inl e \<Rightarrow> w\<lparr>api_log := api_log w @
            [(\<lparr>rq_owner = owner ex, rq_repo = repo ex, rq_path = path\<rparr>,
              octokit (api_log w) \<lparr>rq_owner = owner ex, rq_repo = repo ex, rq_path = path\<rparr>)]\<rparr>
      | Inr content \<Rightarrow> store ex key (File_text content)
          (w\<lparr>api_log := api_log w @
            [(\<lparr>rq_owner = owner ex, rq_repo = repo ex, rq_path = path\<rparr>,
              octokit (api_log w) \<lparr>rq_owner = owner ex, rq_repo = repo ex, rq_path = path\<rparr>)]\<rparr>))"
  by (simp add: readFile_try_def getContent_eq Let_def
      split: sum.splits content_data.splits option.splits)

lemma listDir_try_world:
  "snd (listDir_try octokit ex path key w) =
     (case fst (listDir_try octokit ex path key w) of
        Inl e \<Rightarrow> w\<lparr>api_log := api_log w @
            [(\<lparr>rq_owner = owner ex, rq_repo = repo ex, rq_path = (if path = ''.'' then [] else path)\<rparr>,
              octokit (api_log w)
                \<lparr>rq_owner = owner ex, rq_repo = repo ex, rq_path = (if path = ''.'' then [] else path)\<rparr>)]\<rparr>
      | Inr names \<Rightarrow> store ex key (Dir_names names)
          (w\<lparr>api_log := api_log w @
            [(\<lparr>rq_owner = owner ex, rq_repo = repo ex, rq_path = (if path = ''.'' then [] else path)\<rparr>,
              octokit (api_log w)
                \<lparr>rq_owner = owner ex, rq_repo = repo ex, rq_path = (if path = ''.'' then [] else path)\<rparr>)]\<rparr>))"
  by (simp add: listDir_try_def getContent_eq Let_def
      split: sum.splits content_data.splits option.splits)

lemma readFile_hit:
  "caches w (repoCache ex) (''file:'' @ repoFullName ex @ '':'' @ path) = Some c \<Longrightarrow>
   readFile octokit decode ex path w = (Inr (cached_value c), w)"
  by (simp add: readFile_def)

lemma listDir_hit:
  "caches w (repoCache ex) (''dir:'' @ repoFullName ex @ '':'' @ path) = Some c \<Longrightarrow>
   listDir octokit ex path w = (Inr (cached_value c), w)"
  by (simp add: listDir_def)

text \<open>A call never removes or replaces an entry of any cache.\<close>

lemma readFile_keeps:
  assumes "caches w a k = Some c"
  shows "caches (snd (readFile octokit decode ex path w)) a k = Some c"
proof (cases "caches w (repoCache ex) (''file:'' @ repoFullName ex @ '':'' @ path)")
  case (Some c')
  then show ?thesis using assms by (simp add: readFile_hit)
next
  case None
  obtain r w' where t: "readFile_try octokit decode ex path (''file:'' @ repoFullName ex @ '':'' @ path) w = (r, w')"
    by (cases "readFile_try octokit decode ex path (''file:'' @ repoFullName ex @ '':'' @ path) w")
  have "caches w' a k = Some c"
    using readFile_try_world [of octokit decode ex path "''file:'' @ repoFullName ex @ '':'' @ path" w]
      t assms None
    by (auto simp: store_def split: sum.splits)
  then show ?thesis using None t by (simp add: readFile_def split: sum.splits)
qed

lemma listDir_keeps:
  assumes "caches w a k = Some c"
  shows "caches (snd (listDir octokit ex path w)) a k = Some c"
proof (cases "caches w (repoCache ex) (''dir:'' @ repoFullName ex @ '':'' @ path)")
  case (Some c')
  then show ?thesis using assms by (simp add: listDir_hit)
next
  case None
  obtain r w' where t: "listDir_try octokit ex path (''dir:'' @ repoFullName ex @ '':'' @ path) w = (r, w')"
    by (cases "listDir_try octokit ex path (''dir:'' @ repoFullName ex @ '':'' @ path) w")
  have "caches w' a k = Some c"
    using listDir_try_world [of octokit ex path "''dir:'' @ repoFullName ex @ '':'' @ path" w]
      t assms None
    by (auto simp: store_def split: sum.splits)
  then show ?thesis using None t by (simp add: listDir_def split: sum.splits)
qed

lemma explore_all_keeps:
  "caches w a k = Some c \<Longrightarrow> caches (explore_all octokit decode calls w) a k = Some c"
proof (induction calls arbitrary: w)
  case Nil
  then show ?case by simp
next
  case (Cons x calls)
  have "caches (snd (explore octokit decode x w)) a k = Some c"
    using Cons.prems by (cases x) (simp_all add: explore_def readFile_keeps listDir_keeps)
  then show ?case using Cons.IH by simp
qed

text \<open>A call that succeeds leaves its result in the cache of its instance.\<close>

lemma readFile_success_cached:
  assumes "readFile octokit decode ex path w = (Inr v, w1)"
  shows "\<exists>c. caches w1 (repoCache ex) (''file:'' @ repoFullName ex @ '':'' @ path) = Some c \<and>
     cached_value c = v"
proof (cases "caches w (repoCache ex) (''file:'' @ repoFullName ex @ '':'' @ path)")
  case (Some c')
  then show ?thesis using assms by (auto simp: readFile_hit)
next
  case None
  obtain r w' where t: "readFile_try octokit decode ex path (''file:'' @ repoFullName ex @ '':'' @ path) w = (r, w')"
    by (cases "readFile_try octokit decode ex path (''file:'' @ repoFullName ex @ '':'' @ path) w")
  show ?thesis
    using readFile_try_world [of octokit decode ex path "''file:'' @ repoFullName ex @ '':'' @ path" w]
      t assms None
    by (auto simp: readFile_def store_def cached_value_def split: sum.splits if_splits)
qed

lemma listDir_success_cached:
  assumes "listDir octokit ex path w = (Inr v, w1)"
  shows "\<exists>c. caches w1 (repoCache ex) (''dir:'' @ repoFullName ex @ '':'' @ path) = Some c \<and>
     cached_value c = v"
proof (cases "caches w (repoCache ex) (''dir:'' @ repoFullName ex @ '':'' @ path)")
  case (Some c')
  then show ?thesis using assms by (auto simp: listDir_hit)
next
  case None
  obtain r w' where t: "listDir_try octokit ex path (''dir:'' @ repoFullName ex @ '':'' @ path) w = (r, w')"
    by (cases "listDir_try octokit ex path (''dir:'' @ repoFullName ex @ '':'' @ path) w")
  show ?thesis
    using listDir_try_world [of octokit ex path "''dir:'' @ repoFullName ex @ '':'' @ path" w]
      t assms None
    by (auto simp: listDir_def store_def cached_value_def split: sum.splits if_splits)
qed

text \<open>
  C5 (as amended). Once a call of read-file, or of list-directory, with a path has
  succeeded on an Explorer instance, every later call of the same tool with the same path on
  that instance returns the same result and does not contact the code host (the world,
  hence the log of API calls, stays as it is), whatever calls of either tool happened in
  between and whatever the host would answer now. Calls that fail are not covered: they are
  not cached.
\<close>

theorem repeated_call_after_success:
  "(readFile octokit decode ex path w = (Inr v, w1) \<longrightarrow>
      readFile octokit' decode' ex path (explore_all octokit'' decode'' calls w1) =
        (Inr v, explore_all octokit'' decode'' calls w1)) \<and>
   (listDir octokit ex path w = (Inr u, w2) \<longrightarrow>
      listDir octokit' ex path (explore_all octokit'' decode'' calls w2) =
        (Inr u, explore_all octokit'' decode'' calls w2))"
proof (intro conjI impI)
  assume "readFile octokit decode ex path w = (Inr v, w1)"
  then obtain c where k: "caches w1 (repoCache ex) (''file:'' @ repoFullName ex @ '':'' @ path) = Some c"
    and v: "cached_value c = v"
    using readFile_success_cached by blast
  from k have "caches (explore_all octokit'' decode'' calls w1) (repoCache ex)
      (''file:'' @ repoFullName ex @ '':'' @ path) = Some c"
    by (rule explore_all_keeps)
  then show "readFile octokit' decode' ex path (explore_all octokit'' decode'' calls w1) =
        (Inr v, explore_all octokit'' decode'' calls w1)"
    using v by (simp add: readFile_hit)
next
  assume "listDir octokit ex path w = (Inr u, w2)"
  then obtain c where k: "caches w2 (repoCache ex) (''dir:'' @ repoFullName ex @ '':'' @ path) = Some c"
    and v: "cached_value c = u"
    using listDir_success_cached by blast
  from k have "caches (explore_all octokit'' decode'' calls w2) (repoCache ex)
      (''dir:'' @ repoFullName ex @ '':'' @ path) = Some c"
    by (rule explore_all_keeps)
  then show "listDir octokit' ex path (explore_all octokit'' decode'' calls w2) =
        (Inr u, explore_all octokit'' decode'' calls w2)"
    using v by (simp add: listDir_hit)
qed

lemma pair_of_fst: "fst p = a \<Longrightarrow> p = (a, snd p)"
  by (cases p) simp

theorem repeated_call_after_success_witness:
  "fst (readFile sample_host plain test_explorer ''shared.txt''
      (explore_all sample_host plain [ListDir test_explorer ''src'', ReadFile test_explorer ''nope'']
        (snd (readFile sample_host plain test_explorer ''shared.txt'' empty_world)))) =
     Inr (JStr ''Content from test-owner/test-repo'') \<and>
   api_log (snd (readFile sample_host plain test_explorer ''shared.txt''
      (explore_all sample_host plain [ListDir test_explorer ''src'', ReadFile test_explorer ''nope'']
        (snd (readFile sample_host plain test_explorer ''shared.txt'' empty_world))))) =
     api_log (explore_all sample_host plain [ListDir test_explorer ''src'', ReadFile test_explorer ''nope'']
        (snd (readFile sample_host plain test_explorer ''shared.txt'' empty_world))) \<and>
   fst (listDir sample_host test_explorer ''src''
      (explore_all sample_host plain [ListDir test_explorer ''src'', ReadFile test_explorer ''nope'']
        (snd (listDir sample_host test_explorer ''src'' empty_world)))) =
     Inr (JArr [JStr ''index.js'', JStr ''lib'']) \<and>
   length (api_log (snd (listDir sample_host test_explorer ''src''
      (explore_all sample_host plain [ListDir test_explorer ''src'', ReadFile test_explorer ''nope'']
        (snd (listDir sample_host test_explorer ''src'' empty_world)))))) = 2"
proof -
  have "fst (readFile sample_host plain test_explorer ''shared.txt'' empty_world) =
      Inr (JStr ''Content from test-owner/test-repo'')"
    by code_simp
  then have r: "readFile sample_host plain test_explorer ''shared.txt'' empty_world =
      (Inr (JStr ''Content from test-owner/test-repo''),
       snd (readFile sample_host plain test_explorer ''shared.txt'' empty_world))"
    by (rule pair_of_fst)
  have "fst (listDir sample_host test_explorer ''src'' empty_world) =
      Inr (JArr [JStr ''index.js'', JStr ''lib''])"
    by code_simp
  then have l: "listDir sample_host test_explorer ''src'' empty_world =
      (Inr (JArr [JStr ''index.js'', JStr ''lib'']),
       snd (listDir sample_host test_explorer ''src'' empty_world))"
    by (rule pair_of_fst)
  note t = repeated_call_after_success [where octokit = sample_host and decode = plain
      and ex = test_explorer and path = "''shared.txt''" and w = empty_world
      and v = "JStr ''Content from test-owner/test-repo''"
      and ?w1.0 = "snd (readFile sample_host plain test_explorer ''shared.txt'' empty_world)"
      and octokit' = sample_host and decode' = plain and octokit'' = sample_host and decode'' = plain
      and calls = "[ListDir test_explorer ''src'', ReadFile test_explorer ''nope'']"]
  note t' = repeated_call_after_success [where octokit = sample_host
      and ex = test_explorer and path = "''src''" and w = empty_world
      and u = "JArr [JStr ''index.js'', JStr ''lib'']"
      and ?w2.0 = "snd (listDir sample_host test_explorer ''src'' empty_world)"
      and octokit' = sample_host and octokit'' = sample_host and decode'' = plain
      and calls = "[ListDir test_explorer ''src'', ReadFile test_explorer ''nope'']"]
  have a: "readFile sample_host plain test_explorer ''shared.txt''
      (explore_all sample_host plain [ListDir test_explorer ''src'', ReadFile test_explorer ''nope'']
        (snd (readFile sample_host plain test_explorer ''shared.txt'' empty_world))) =
     (Inr (JStr ''Content from test-owner/test-repo''),
      explore_all sample_host plain [ListDir test_explorer ''src'', ReadFile test_explorer ''nope'']
        (snd (readFile sample_host plain test_explorer ''shared.txt'' empty_world)))"
    using t r by (simp del: explore_all.simps)
  have b: "listDir sample_host test_explorer ''src''
      (explore_all sample_host plain [ListDir test_explorer ''src'', ReadFile test_explorer ''nope'']
        (snd (listDir sample_host test_explorer ''src'' empty_world))) =
     (Inr (JArr [JStr ''index.js'', JStr ''lib'']),
      explore_all sample_host plain [ListDir test_explorer ''src'', ReadFile test_explorer ''nope'']
        (snd (listDir sample_host test_explorer ''src'' empty_world)))"
    using t' l by (simp del: explore_all.simps)
  have n: "length (api_log (explore_all sample_host plain
      [ListDir test_explorer ''src'', ReadFile test_explorer ''nope'']
        (snd (listDir sample_host test_explorer ''src'' empty_world)))) = 2"
    by code_simp
  show ?thesis
    unfolding a b using n by (simp del: explore_all.simps)
qed

theorem repeated_call_after_success_counterexample:
  "fst (readFile sample_host plain test_explorer ''nope'' empty_world) =
     Inl \<lparr>status = None, message = ''File not found: nope''\<rparr> \<and>
   map fst (api_log (snd (readFile sample_host plain test_explorer ''nope''
     (snd (readFile sample_host plain test_explorer ''nope'' empty_world))))) =
     [\<lparr>rq_owner = ''test-owner'', rq_repo = ''test-repo'', rq_path = ''nope''\<rparr>,
      \<lparr>rq_owner = ''test-owner'', rq_repo = ''test-repo'', rq_path = ''nope''\<rparr>]"
  by code_simp

subsection \<open>Failures\<close>

lemma readFile_miss:
  assumes "caches w (repoCache ex) (''file:'' @ repoFullName ex @ '':'' @ path) = None"
  shows "api_log (snd (readFile octokit decode ex path w)) = api_log w @
      [(\<lparr>rq_owner = owner ex, rq_repo = repo ex, rq_path = path\<rparr>,
        octokit (api_log w) \<lparr>rq_owner = owner ex, rq_repo = repo ex, rq_path = path\<rparr>)]"
proof -
  obtain r w' where t: "readFile_try octokit decode ex path (''file:'' @ repoFullName ex @ '':'' @ path) w = (r, w')"
    by (cases "readFile_try octokit decode ex path (''file:'' @ repoFullName ex @ '':'' @ path) w")
  show ?thesis
    using readFile_try_world [of octokit decode ex path "''file:'' @ repoFullName ex @ '':'' @ path" w]
      t assms
    by (auto simp: readFile_def store_def split: sum.splits)
qed

lemma listDir_miss:
  assumes "caches w (repoCache ex) (''dir:'' @ repoFullName ex @ '':'' @ path) = None"
  shows "api_log (snd (listDir octokit ex path w)) = api_log w @
      [(\<lparr>rq_owner = owner ex, rq_repo = repo ex, rq_path = (if path = ''.'' then [] else path)\<rparr>,
        octokit (api_log w)
          \<lparr>rq_owner = owner ex, rq_repo = repo ex, rq_path = (if path = ''.'' then [] else path)\<rparr>)]"
proof -
  obtain r w' where t: "listDir_try octokit ex path (''dir:'' @ repoFullName ex @ '':'' @ path) w = (r, w')"
    by (cases "listDir_try octokit ex path (''dir:'' @ repoFullName ex @ '':'' @ path) w")
  show ?thesis
    using listDir_try_world [of octokit ex path "''dir:'' @ repoFullName ex @ '':'' @ path" w]
      t assms
    by (auto simp: listDir_def store_def split: sum.splits)
qed

lemma readFile_failure:
  assumes "readFile octokit decode ex path w = (Inl e, w1)"
  shows "caches w (repoCache ex) (''file:'' @ repoFullName ex @ '':'' @ path) = None \<and>
     caches w1 = caches w \<and> next_cache w1 = next_cache w"
proof (cases "caches w (repoCache ex) (''file:'' @ repoFullName ex @ '':'' @ path)")
  case (Some c)
  then show ?thesis using assms by (simp add: readFile_hit)
next
  case None
  obtain r w' where t: "readFile_try octokit decode ex path (''file:'' @ repoFullName ex @ '':'' @ path) w = (r, w')"
    by (cases "readFile_try octokit decode ex path (''file:'' @ repoFullName ex @ '':'' @ path) w")
  show ?thesis
    using readFile_try_world [of octokit decode ex path "''file:'' @ repoFullName ex @ '':'' @ path" w]
      t assms None
    by (auto simp: readFile_def split: sum.splits if_splits)
qed

lemma listDir_failure:
  assumes "listDir octokit ex path w = (Inl e, w1)"
  shows "caches w (repoCache ex) (''dir:'' @ repoFullName ex @ '':'' @ path) = None \<and>
     caches w1 = caches w \<and> next_cache w1 = next_cache w"
proof (cases "caches w (repoCache ex) (''dir:'' @ repoFullName ex @ '':'' @ path)")
  case (Some c)
  then show ?thesis using assms by (simp add: listDir_hit)
next
  case None
  obtain r w' where t: "listDir_try octokit ex path (''dir:'' @ repoFullName ex @ '':'' @ path) w = (r, w')"
    by (cases "listDir_try octokit ex path (''dir:'' @ repoFullName ex @ '':'' @ path) w")
  show ?thesis
    using listDir_try_world [of octokit ex path "''dir:'' @ repoFullName ex @ '':'' @ path" w]
      t assms None
    by (auto simp: listDir_def split: sum.splits if_splits)
qed

text \<open>
  C10. A call of read-file or list-directory that throws leaves every cache as it was, and
  the next call with the same path on the same instance contacts the code host again: the
  log of API calls grows by its request.
\<close>

theorem failure_is_not_cached:
  "(readFile octokit decode ex path w = (Inl e, w1) \<longrightarrow>
      caches w1 = caches w \<and>
      api_log (snd (readFile octokit' decode' ex path w1)) = api_log w1 @
        [(\<lparr>rq_owner = owner ex, rq_repo = repo ex, rq_path = path\<rparr>,
          octokit' (api_log w1) \<lparr>rq_owner = owner ex, rq_repo = repo ex, rq_path = path\<rparr>)]) \<and>
   (listDir octokit ex path w = (Inl e', w2) \<longrightarrow>
      caches w2 = caches w \<and>
      api_log (snd (listDir octokit' ex path w2)) = api_log w2 @
        [(\<lparr>rq_owner = owner ex, rq_repo = repo ex, rq_path = (if path = ''.'' then [] else path)\<rparr>,
          octokit' (api_log w2)
            \<lparr>rq_owner = owner ex, rq_repo = repo ex, rq_path = (if path = ''.'' then [] else path)\<rparr>)])"
proof (intro conjI impI)
  assume a: "readFile octokit decode ex path w = (Inl e, w1)"
  show "caches w1 = caches w" using readFile_failure [OF a] by simp
  have "caches w1 (repoCache ex) (''file:'' @ repoFullName ex @ '':'' @ path) = None"
    using readFile_failure [OF a] by simp
  then show "api_log (snd (readFile octokit' decode' ex path w1)) = api_log w1 @
        [(\<lparr>rq_owner = owner ex, rq_repo = repo ex, rq_path = path\<rparr>,
          octokit' (api_log w1) \<lparr>rq_owner = owner ex, rq_repo = repo ex, rq_path = path\<rparr>)]"
    by (rule readFile_miss)
next
  assume a: "listDir octokit ex path w = (Inl e', w2)"
  show "caches w2 = caches w" using listDir_failure [OF a] by simp
  have "caches w2 (repoCache ex) (''dir:'' @ repoFullName ex @ '':'' @ path) = None"
    using listDir_failure [OF a] by simp
  then show "api_log (snd (listDir octokit' ex path w2)) = api_log w2 @
        [(\<lparr>rq_owner = owner ex, rq_repo = repo ex, rq_path = (if path = ''.'' then [] else path)\<rparr>,
          octokit' (api_log w2)
            \<lparr>rq_owner = owner ex, rq_repo = repo ex, rq_path = (if path = ''.'' then [] else path)\<rparr>)]"
    by (rule listDir_miss)
qed

theorem failure_is_not_cached_witness:
  "caches (snd (readFile sample_host plain test_explorer ''nope'' empty_world)) = caches empty_world \<and>
   length (api_log (snd (readFile sample_host plain test_explorer ''nope''
     (snd (readFile sample_host plain test_explorer ''nope'' empty_world))))) = 2 \<and>
   caches (snd (listDir sample_host test_explorer ''private'' empty_world)) = caches empty_world \<and>
   length (api_log (snd (listDir sample_host test_explorer ''private''
     (snd (listDir sample_host test_explorer ''private'' empty_world))))) = 2"
proof -
  have "fst (readFile sample_host plain test_explorer ''nope'' empty_world) =
      Inl (new_Error ''File not found: nope'')"
    by code_simp
  then have r: "readFile sample_host plain test_explorer ''nope'' empty_world =
      (Inl (new_Error ''File not found: nope''),
       snd (readFile sample_host plain test_explorer ''nope'' empty_world))"
    by (rule pair_of_fst)
  have "fst (listDir sample_host test_explorer ''private'' empty_world) =
      Inl (new_Error ''Failed to list directory private: Forbidden'')"
    by code_simp
  then have l: "listDir sample_host test_explorer ''private'' empty_world =
      (Inl (new_Error ''Failed to list directory private: Forbidden''),
       snd (listDir sample_host test_explorer ''private'' empty_world))"
    by (rule pair_of_fst)
  have n: "length (api_log (snd (readFile sample_host plain test_explorer ''nope'' empty_world))) = 1"
    "length (api_log (snd (listDir sample_host test_explorer ''private'' empty_world))) = 1"
    by code_simp+
  note t = failure_is_not_cached [where octokit = sample_host and decode = plain
      and ex = test_explorer and path = "''nope''" and w = empty_world
      and e = "new_Error ''File not found: nope''"
      and ?w1.0 = "snd (readFile sample_host plain test_explorer ''nope'' empty_world)"
      and octokit' = sample_host and decode' = plain]
  note t' = failure_is_not_cached [where octokit = sample_host
      and ex = test_explorer and path = "''private''" and w = empty_world
      and e' = "new_Error ''Failed to list directory private: Forbidden''"
      and ?w2.0 = "snd (listDir sample_host test_explorer ''private'' empty_world)"
      and octokit' = sample_host]
  have a: "caches (snd (readFile sample_host plain test_explorer ''nope'' empty_world)) = caches empty_world"
    "length (api_log (snd (readFile sample_host plain test_explorer ''nope''
     (snd (readFile sample_host plain test_explorer ''nope'' empty_world))))) = 2"
    using t r n by simp_all
  have b: "caches (snd (listDir sample_host test_explorer ''private'' empty_world)) = caches empty_world"
    "length (api_log (snd (listDir sample_host test_explorer ''private''
     (snd (listDir sample_host test_explorer ''private'' empty_world))))) = 2"
    using t' l n by simp_all
  show ?thesis using a b by blast
qed

text \<open>
  C6. When the cache has no entry for the path and the code host answers the request with an
  error: a status 404 makes read-file throw \<^verbatim>\<open>File not found: <path>\<close> and
  list-directory throw \<^verbatim>\<open>Directory not found: <path>\<close>; any other error makes
  them throw \<^verbatim>\<open>Failed to read file <path>: <message>\<close> and
  \<^verbatim>\<open>Failed to list directory <path>: <message>\<close>, with the message of the
  host's error.
\<close>

theorem host_failure_messages:
  "(caches w (repoCache ex) (''file:'' @ repoFullName ex @ '':'' @ path) = None \<and>
    octokit (api_log w) \<lparr>rq_owner = owner ex, rq_repo = repo ex, rq_path = path\<rparr> = Inl error \<longrightarrow>
      fst (readFile octokit decode ex path w) =
        Inl (new_Error (if status error = Some 404 then ''File not found: '' @ path
                        else ''Failed to read file '' @ path @ '': '' @ message error))) \<and>
   (caches w (repoCache ex) (''dir:'' @ repoFullName ex @ '':'' @ path) = None \<and>
    octokit (api_log w)
      \<lparr>rq_owner = owner ex, rq_repo = repo ex, rq_path = (if path = ''.'' then [] else path)\<rparr> =
      Inl error' \<longrightarrow>
      fst (listDir octokit ex path w) =
        Inl (new_Error (if status error' = Some 404 then ''Directory not found: '' @ path
                        else ''Failed to list directory '' @ path @ '': '' @ message error')))"
  by (simp add: readFile_def readFile_try_def listDir_def listDir_try_def getContent_eq)

theorem host_failure_messages_witness:
  "fst (readFile sample_host plain test_explorer ''nonexistent.md'' empty_world) =
     Inl (new_Error ''File not found: nonexistent.md'') \<and>
   fst (listDir sample_host test_explorer ''nonexistent'' empty_world) =
     Inl (new_Error ''Directory not found: nonexistent'') \<and>
   fst (readFile sample_host plain test_explorer ''private'' empty_world) =
     Inl (new_Error ''Failed to read file private: Forbidden'') \<and>
   fst (listDir sample_host test_explorer ''private'' empty_world) =
     Inl (new_Error ''Failed to list directory private: Forbidden'')"
proof -
  have m: "caches empty_world (repoCache test_explorer) k = None" for k
    by (simp add: empty_world_def)
  have h1: "sample_host (api_log empty_world)
      \<lparr>rq_owner = owner test_explorer, rq_repo = repo test_explorer, rq_path = ''nonexistent.md''\<rparr> =
      Inl \<lparr>status = Some 404, message = ''Not Found''\<rparr>"
    and h2: "sample_host (api_log empty_world)
      \<lparr>rq_owner = owner test_explorer, rq_repo = repo test_explorer,
       rq_path = (if ''nonexistent'' = ''.'' then [] else ''nonexistent'')\<rparr> =
      Inl \<lparr>status = Some 404, message = ''Not Found''\<rparr>"
    and h3: "sample_host (api_log empty_world)
      \<lparr>rq_owner = owner test_explorer, rq_repo = repo test_explorer, rq_path = ''private''\<rparr> =
      Inl \<lparr>status = Some 403, message = ''Forbidden''\<rparr>"
    and h4: "sample_host (api_log empty_world)
      \<lparr>rq_owner = owner test_explorer, rq_repo = repo test_explorer,
       rq_path = (if ''private'' = ''.'' then [] else ''private'')\<rparr> =
      Inl \<lparr>status = Some 403, message = ''Forbidden''\<rparr>"
    by (simp_all add: sample_host_def)
  have a: "fst (readFile sample_host plain test_explorer ''nonexistent.md'' empty_world) =
     Inl (new_Error ''File not found: nonexistent.md'')"
    using host_failure_messages [where w = empty_world and ex = test_explorer
        and path = "''nonexistent.md''" and octokit = sample_host and decode = plain
        and error = "\<lparr>status = Some 404, message = ''Not Found''\<rparr>"] m h1
    by simp
  have b: "fst (listDir sample_host test_explorer ''nonexistent'' empty_world) =
     Inl (new_Error ''Directory not found: nonexistent'')"
    using host_failure_messages [where w = empty_world and ex = test_explorer
        and path = "''nonexistent''" and octokit = sample_host
        and error' = "\<lparr>status = Some 404, message = ''Not Found''\<rparr>"] m h2
    by simp
  have c: "fst (readFile sample_host plain test_explorer ''private'' empty_world) =
     Inl (new_Error ''Failed to read file private: Forbidden'')"
    using host_failure_messages [where w = empty_world and ex = test_explorer
        and path = "''private''" and octokit = sample_host and decode = plain
        and error = "\<lparr>status = Some 403, message = ''Forbidden''\<rparr>"] m h3
    by simp
  have d: "fst (listDir sample_host test_explorer ''private'' empty_world) =
     Inl (new_Error ''Failed to list directory private: Forbidden'')"
    using host_failure_messages [where w = empty_world and ex = test_explorer
        and path = "''private''" and octokit = sample_host
        and error' = "\<lparr>status = Some 403, message = ''Forbidden''\<rparr>"] m h4
    by simp
  show ?thesis using a b c d by blast
qed

subsection \<open>Several instances\<close>

lemma readFile_frame:
  "a \<noteq> repoCache ex \<Longrightarrow> caches (snd (readFile octokit decode ex path w)) a = caches w a"
proof -
  assume a: "a \<noteq> repoCache ex"
  obtain r w' where t: "readFile_try octokit decode ex path (''file:'' @ repoFullName ex @ '':'' @ path) w = (r, w')"
    by (cases "readFile_try octokit decode ex path (''file:'' @ repoFullName ex @ '':'' @ path) w")
  show ?thesis
    using readFile_try_world [of octokit decode ex path "''file:'' @ repoFullName ex @ '':'' @ path" w]
      t a
    by (auto simp: readFile_def Let_def store_def split: sum.splits option.splits)
qed

lemma listDir_frame:
  "a \<noteq> repoCache ex \<Longrightarrow> caches (snd (listDir octokit ex path w)) a = caches w a"
proof -
  assume a: "a \<noteq> repoCache ex"
  obtain r w' where t: "listDir_try octokit ex path (''dir:'' @ repoFullName ex @ '':'' @ path) w = (r, w')"
    by (cases "listDir_try octokit ex path (''dir:'' @ repoFullName ex @ '':'' @ path) w")
  show ?thesis
    using listDir_try_world [of octokit ex path "''dir:'' @ repoFullName ex @ '':'' @ path" w]
      t a
    by (auto simp: listDir_def Let_def store_def split: sum.splits option.splits)
qed

lemma readFile_local:
  assumes "caches w (repoCache ex) = caches v (repoCache ex)" and "api_log w = api_log v"
  shows "fst (readFile octokit decode ex path w) = fst (readFile octokit decode ex path v)"
  using assms
  by (simp add: readFile_def readFile_try_def getContent_eq Let_def
      split: option.splits sum.splits content_data.splits prod.splits)

lemma listDir_local:
  assumes "caches w (repoCache ex) = caches v (repoCache ex)" and "api_log w = api_log v"
  shows "fst (listDir octokit ex path w) = fst (listDir octokit ex path v)"
  using assms
  by (simp add: listDir_def listDir_try_def getContent_eq Let_def
      split: option.splits sum.splits content_data.splits prod.splits)

lemma createExploreFunctions_fresh:
  assumes "createExploreFunctions name w = (Inr ex, w')"
  shows "repoCache ex = next_cache w" and "next_cache w' = Suc (next_cache w)"
    and "caches w' = (caches w)(next_cache w := Map.empty)" and "api_log w' = api_log w"
  using assms by (auto simp: createExploreFunctions_def Let_def split: if_splits)

lemma readFile_fresh_file:
  assumes "caches w (repoCache ex) = Map.empty"
    and "octokit (api_log w) \<lparr>rq_owner = owner ex, rq_repo = repo ex, rq_path = path\<rparr> =
      Inr (Single ''file'' (Some c))"
  shows "fst (readFile octokit decode ex path w) = Inr (JStr (decode c))"
  using assms by (simp add: readFile_def readFile_try_def getContent_eq Let_def)

text \<open>
  C7. A call through one Explorer instance changes no cache but its own, and its result
  depends on no cache but its own (and on the host). Two instances made one after the
  other, for any two repository names, have different caches; reading the same path through
  each contacts the host once for each, with that instance's owner and repository, and each
  result is the decoded content the host gave for that instance's request.
\<close>

theorem explorers_share_nothing:
  "(a \<noteq> repoCache ex \<longrightarrow>
      caches (snd (readFile octokit decode ex path w)) a = caches w a \<and>
      caches (snd (listDir octokit ex path w)) a = caches w a) \<and>
   (caches w (repoCache ex) = caches v (repoCache ex) \<and> api_log w = api_log v \<longrightarrow>
      fst (readFile octokit decode ex path w) = fst (readFile octokit decode ex path v) \<and>
      fst (listDir octokit ex path w) = fst (listDir octokit ex path v)) \<and>
   (createExploreFunctions name1 w0 = (Inr ex1, w1) \<and>
    createExploreFunctions name2 w1 = (Inr ex2, w2) \<longrightarrow>
      repoCache ex1 \<noteq> repoCache ex2 \<and>
      api_log (snd (readFile octokit decode ex2 path (snd (readFile octokit decode ex1 path w2)))) =
        api_log w0 @
          [(\<lparr>rq_owner = owner ex1, rq_repo = repo ex1, rq_path = path\<rparr>,
            octokit (api_log w0) \<lparr>rq_owner = owner ex1, rq_repo = repo ex1, rq_path = path\<rparr>),
           (\<lparr>rq_owner = owner ex2, rq_repo = repo ex2, rq_path = path\<rparr>,
            octokit (api_log (snd (readFile octokit decode ex1 path w2)))
              \<lparr>rq_owner = owner ex2, rq_repo = repo ex2, rq_path = path\<rparr>)] \<and>
      (octokit (api_log w0) \<lparr>rq_owner = owner ex1, rq_repo = repo ex1, rq_path = path\<rparr> =
         Inr (Single ''file'' (Some c1)) \<longrightarrow>
       fst (readFile octokit decode ex1 path w2) = Inr (JStr (decode c1))) \<and>
      (octokit (api_log (snd (readFile octokit decode ex1 path w2)))
         \<lparr>rq_owner = owner ex2, rq_repo = repo ex2, rq_path = path\<rparr> =
         Inr (Single ''file'' (Some c2)) \<longrightarrow>
       fst (readFile octokit decode ex2 path (snd (readFile octokit decode ex1 path w2))) =
         Inr (JStr (decode c2))))"
proof (intro conjI impI)
  assume "a \<noteq> repoCache ex"
  then show "caches (snd (readFile octokit decode ex path w)) a = caches w a"
    and "caches (snd (listDir octokit ex path w)) a = caches w a"
    by (simp_all add: readFile_frame listDir_frame)
next
  assume "caches w (repoCache ex) = caches v (repoCache ex) \<and> api_log w = api_log v"
  then show "fst (readFile octokit decode ex path w) = fst (readFile octokit decode ex path v)"
    and "fst (listDir octokit ex path w) = fst (listDir octokit ex path v)"
    using readFile_local listDir_local by blast+
next
  assume c: "createExploreFunctions name1 w0 = (Inr ex1, w1) \<and>
    createExploreFunctions name2 w1 = (Inr ex2, w2)"
  note f1 = createExploreFunctions_fresh [OF conjunct1 [OF c]]
  note f2 = createExploreFunctions_fresh [OF conjunct2 [OF c]]
  show d: "repoCache ex1 \<noteq> repoCache ex2" using f1 f2 by simp
  have e1: "caches w2 (repoCache ex1) = Map.empty" using f1 f2 by simp
  have e2: "caches w2 (repoCache ex2) = Map.empty" using f1 f2 by simp
  define w3 where "w3 = snd (readFile octokit decode ex1 path w2)"
  have e3: "caches w3 (repoCache ex2) = Map.empty"
    unfolding w3_def using readFile_frame [of "repoCache ex2" ex1 octokit decode path w2] d e2 by simp
  have l1: "api_log w3 = api_log w0 @
      [(\<lparr>rq_owner = owner ex1, rq_repo = repo ex1, rq_path = path\<rparr>,
        octokit (api_log w0) \<lparr>rq_owner = owner ex1, rq_repo = repo ex1, rq_path = path\<rparr>)]"
    unfolding w3_def using readFile_miss [of w2 ex1 path octokit decode] e1 f1 f2 by simp
  have l2: "api_log (snd (readFile octokit decode ex2 path w3)) = api_log w3 @
      [(\<lparr>rq_owner = owner ex2, rq_repo = repo ex2, rq_path = path\<rparr>,
        octokit (api_log w3) \<lparr>rq_owner = owner ex2, rq_repo = repo ex2, rq_path = path\<rparr>)]"
    using readFile_miss [of w3 ex2 path octokit decode] e3 by simp
  show "api_log (snd (readFile octokit decode ex2 path (snd (readFile octokit decode ex1 path w2)))) =
        api_log w0 @
          [(\<lparr>rq_owner = owner ex1, rq_repo = repo ex1, rq_path = path\<rparr>,
            octokit (api_log w0) \<lparr>rq_owner = owner ex1, rq_repo = repo ex1, rq_path = path\<rparr>),
           (\<lparr>rq_owner = owner ex2, rq_repo = repo ex2, rq_path = path\<rparr>,
            octokit (api_log (snd (readFile octokit decode ex1 path w2)))
              \<lparr>rq_owner = owner ex2, rq_repo = repo ex2, rq_path = path\<rparr>)]"
    using l1 l2 by (simp add: w3_def)
  {
    assume "octokit (api_log w0) \<lparr>rq_owner = owner ex1, rq_repo = repo ex1, rq_path = path\<rparr> =
         Inr (Single ''file'' (Some c1))"
    then show "fst (readFile octokit decode ex1 path w2) = Inr (JStr (decode c1))"
      using readFile_fresh_file [of w2 ex1 octokit path c1 decode] e1 f1 f2 by simp
  }
  {
    assume "octokit (api_log (snd (readFile octokit decode ex1 path w2)))
         \<lparr>rq_owner = owner ex2, rq_repo = repo ex2, rq_path = path\<rparr> =
         Inr (Single ''file'' (Some c2))"
    then show "fst (readFile octokit decode ex2 path (snd (readFile octokit decode ex1 path w2))) =
         Inr (JStr (decode c2))"
      using readFile_fresh_file [of w3 ex2 octokit path c2 decode] e3 by (simp add: w3_def)
  }
qed

theorem explorers_share_nothing_witness:
  "caches (snd (readFile sample_host plain first_explorer ''shared.txt'' two_explorers)) 1 =
     caches two_explorers 1 \<and>
   fst (listDir sample_host second_explorer ''src'' (two_explorers\<lparr>next_cache := 7\<rparr>)) =
     fst (listDir sample_host second_explorer ''src'' two_explorers) \<and>
   fst (readFile sample_host plain first_explorer ''shared.txt'' two_explorers) =
     Inr (JStr ''Content from repo1/owner1'') \<and>
   fst (readFile sample_host plain second_explorer ''shared.txt''
     (snd (readFile sample_host plain first_explorer ''shared.txt'' two_explorers))) =
     Inr (JStr ''Content from repo2/owner2'') \<and>
   map fst (api_log (snd (readFile sample_host plain second_explorer ''shared.txt''
     (snd (readFile sample_host plain first_explorer ''shared.txt'' two_explorers))))) =
     [\<lparr>rq_owner = ''repo1'', rq_repo = ''owner1'', rq_path = ''shared.txt''\<rparr>,
      \<lparr>rq_owner = ''repo2'', rq_repo = ''owner2'', rq_path = ''shared.txt''\<rparr>]"
proof -
  have "fst (createExploreFunctions ''repo1/owner1'' empty_world) = Inr first_explorer"
    by code_simp
  then have c1: "createExploreFunctions ''repo1/owner1'' empty_world = (Inr first_explorer, one_explorer)"
    unfolding one_explorer_def by (rule pair_of_fst)
  have "fst (createExploreFunctions ''repo2/owner2'' one_explorer) = Inr second_explorer"
    by code_simp
  then have c2: "createExploreFunctions ''repo2/owner2'' one_explorer = (Inr second_explorer, two_explorers)"
    unfolding two_explorers_def by (rule pair_of_fst)
  have h1: "sample_host (api_log empty_world)
      \<lparr>rq_owner = owner first_explorer, rq_repo = repo first_explorer, rq_path = ''shared.txt''\<rparr> =
      Inr (Single ''file'' (Some ''Content from repo1/owner1''))"
    by (simp add: sample_host_def first_explorer_def)
  have h2: "sample_host (api_log (snd (readFile sample_host plain first_explorer ''shared.txt'' two_explorers)))
      \<lparr>rq_owner = owner second_explorer, rq_repo = repo second_explorer, rq_path = ''shared.txt''\<rparr> =
      Inr (Single ''file'' (Some ''Content from repo2/owner2''))"
    by (simp add: sample_host_def second_explorer_def)
  have n: "(1::nat) \<noteq> repoCache first_explorer" by (simp add: first_explorer_def)
  have s: "caches (two_explorers\<lparr>next_cache := 7\<rparr>) (repoCache second_explorer) =
      caches two_explorers (repoCache second_explorer) \<and>
      api_log (two_explorers\<lparr>next_cache := 7\<rparr>) = api_log two_explorers"
    by simp
  note t = explorers_share_nothing [where a = 1 and ex = first_explorer and octokit = sample_host
      and decode = plain and path = "''shared.txt''" and w = two_explorers and v = two_explorers
      and ?name1.0 = "''repo1/owner1''" and ?w0.0 = empty_world and ?ex1.0 = first_explorer
      and ?w1.0 = one_explorer and ?name2.0 = "''repo2/owner2''" and ?ex2.0 = second_explorer
      and ?w2.0 = two_explorers and ?c1.0 = "''Content from repo1/owner1''"
      and ?c2.0 = "''Content from repo2/owner2''"]
  note t' = explorers_share_nothing [where a = 0 and ex = second_explorer and octokit = sample_host
      and decode = plain and path = "''src''" and w = "two_explorers\<lparr>next_cache := 7\<rparr>"
      and v = two_explorers]
  have a: "caches (snd (readFile sample_host plain first_explorer ''shared.txt'' two_explorers)) 1 =
     caches two_explorers 1"
    using t n by blast
  have b: "fst (listDir sample_host second_explorer ''src'' (two_explorers\<lparr>next_cache := 7\<rparr>)) =
     fst (listDir sample_host second_explorer ''src'' two_explorers)"
    using t' s by blast
  have c: "fst (readFile sample_host plain first_explorer ''shared.txt'' two_explorers) =
     Inr (JStr ''Content from repo1/owner1'')"
    using t c1 c2 h1 by (simp add: plain_def)
  have d: "fst (readFile sample_host plain second_explorer ''shared.txt''
     (snd (readFile sample_host plain first_explorer ''shared.txt'' two_explorers))) =
     Inr (JStr ''Content from repo2/owner2'')"
    using t c1 c2 h2 by (simp add: plain_def)
  have e: "map fst (api_log (snd (readFile sample_host plain second_explorer ''shared.txt''
     (snd (readFile sample_host plain first_explorer ''shared.txt'' two_explorers))))) =
     [\<lparr>rq_owner = ''repo1'', rq_repo = ''owner1'', rq_path = ''shared.txt''\<rparr>,
      \<lparr>rq_owner = ''repo2'', rq_repo = ''owner2'', rq_path = ''shared.txt''\<rparr>]"
    by code_simp
  show ?thesis using a b c d e by blast
qed

section \<open>Properties of the sandbox manager\<close>



















end
